theory Spec2Isabelle
  imports Complex_Main "HOL-Library.Char_ord" "HOL-Library.List_Lexorder" "HOL-Library.AList"
begin

section \<open>Travel Explorer API: the handlers of main.py\<close>

text \<open>
  The handlers of \<^verbatim>\<open>main.py\<close> are embedded as HOL functions. A Python \<^verbatim>\<open>str\<close> is
  the list of its code points, so that slices and comparisons count what Python counts;
  the literals of the source are ASCII and are written \<open>lit ''...''\<close>, the
  pictographs of the diagnostic strings are written as their code points. The prices of
  the mock tables are small integers and halves, on which IEEE addition is exact, so
  floats are held as \<open>real\<close>; the ratings are decimal literals that take part in no
  arithmetic.

  \<^verbatim>\<open>create_document\<close> and \<^verbatim>\<open>get_documents\<close> are imported from a module that
  is not part of the sources at hand. The handlers take them as parameters: functions on
  an arbitrary world \<open>'w\<close> that return a result or an exception, and the next world.
\<close>

subsection \<open>Text: code points, upper(), title()\<close>

type_synonym pystr = "nat list"

definition lit :: "string \<Rightarrow> pystr" where
  "lit cs = map of_char cs"

text \<open>
  \<^verbatim>\<open>str.upper()\<close> and \<^verbatim>\<open>str.title()\<close> map each code point through the case
  tables of the interpreter's Unicode database. The tables below are those of Unicode
  14.0.0, the version CPython 3.11 carries, in run-length form. A table has two parts: the
  code points whose mapping is more than one code point, and runs \<open>(lo, hi, step, to)\<close>:
  the code points \<open>lo, lo + step, ..., hi\<close> map to \<open>to, to + step, ...\<close>. A code
  point in neither part maps to itself. The cased and the case-ignorable code points are
  given as ranges.
\<close>

definition upper_special :: "(nat \<times> nat list) list" where
  "upper_special =
   [(0xDF, [0x53, 0x53]), (0x149, [0x2BC, 0x4E]), (0x1F0, [0x4A, 0x30C]),
    (0x390, [0x399, 0x308, 0x301]), (0x3B0, [0x3A5, 0x308, 0x301]), (0x587, [0x535, 0x552]),
    (0x1E96, [0x48, 0x331]), (0x1E97, [0x54, 0x308]), (0x1E98, [0x57, 0x30A]),
    (0x1E99, [0x59, 0x30A]), (0x1E9A, [0x41, 0x2BE]), (0x1F50, [0x3A5, 0x313]),
    (0x1F52, [0x3A5, 0x313, 0x300]), (0x1F54, [0x3A5, 0x313, 0x301]),
    (0x1F56, [0x3A5, 0x313, 0x342]), (0x1F80, [0x1F08, 0x399]), (0x1F81, [0x1F09, 0x399]),
    (0x1F82, [0x1F0A, 0x399]), (0x1F83, [0x1F0B, 0x399]), (0x1F84, [0x1F0C, 0x399]),
    (0x1F85, [0x1F0D, 0x399]), (0x1F86, [0x1F0E, 0x399]), (0x1F87, [0x1F0F, 0x399]),
    (0x1F88, [0x1F08, 0x399]), (0x1F89, [0x1F09, 0x399]), (0x1F8A, [0x1F0A, 0x399]),
    (0x1F8B, [0x1F0B, 0x399]), (0x1F8C, [0x1F0C, 0x399]), (0x1F8D, [0x1F0D, 0x399]),
    (0x1F8E, [0x1F0E, 0x399]), (0x1F8F, [0x1F0F, 0x399]), (0x1F90, [0x1F28, 0x399]),
    (0x1F91, [0x1F29, 0x399]), (0x1F92, [0x1F2A, 0x399]), (0x1F93, [0x1F2B, 0x399]),
    (0x1F94, [0x1F2C, 0x399]), (0x1F95, [0x1F2D, 0x399]), (0x1F96, [0x1F2E, 0x399]),
    (0x1F97, [0x1F2F, 0x399]), (0x1F98, [0x1F28, 0x399]), (0x1F99, [0x1F29, 0x399]),
    (0x1F9A, [0x1F2A, 0x399]), (0x1F9B, [0x1F2B, 0x399]), (0x1F9C, [0x1F2C, 0x399]),
    (0x1F9D, [0x1F2D, 0x399]), (0x1F9E, [0x1F2E, 0x399]), (0x1F9F, [0x1F2F, 0x399]),
    (0x1FA0, [0x1F68, 0x399]), (0x1FA1, [0x1F69, 0x399]), (0x1FA2, [0x1F6A, 0x399]),
    (0x1FA3, [0x1F6B, 0x399]), (0x1FA4, [0x1F6C, 0x399]), (0x1FA5, [0x1F6D, 0x399]),
    (0x1FA6, [0x1F6E, 0x399]), (0x1FA7, [0x1F6F, 0x399]), (0x1FA8, [0x1F68, 0x399]),
    (0x1FA9, [0x1F69, 0x399]), (0x1FAA, [0x1F6A, 0x399]), (0x1FAB, [0x1F6B, 0x399]),
    (0x1FAC, [0x1F6C, 0x399]), (0x1FAD, [0x1F6D, 0x399]), (0x1FAE, [0x1F6E, 0x399]),
    (0x1FAF, [0x1F6F, 0x399]), (0x1FB2, [0x1FBA, 0x399]), (0x1FB3, [0x391, 0x399]),
    (0x1FB4, [0x386, 0x399]), (0x1FB6, [0x391, 0x342]), (0x1FB7, [0x391, 0x342, 0x399]),
    (0x1FBC, [0x391, 0x399]), (0x1FC2, [0x1FCA, 0x399]), (0x1FC3, [0x397, 0x399]),
    (0x1FC4, [0x389, 0x399]), (0x1FC6, [0x397, 0x342]), (0x1FC7, [0x397, 0x342, 0x399]),
    (0x1FCC, [0x397, 0x399]), (0x1FD2, [0x399, 0x308, 0x300]), (0x1FD3, [0x399, 0x308, 0x301]),
    (0x1FD6, [0x399, 0x342]), (0x1FD7, [0x399, 0x308, 0x342]), (0x1FE2, [0x3A5, 0x308, 0x300]),
    (0x1FE3, [0x3A5, 0x308, 0x301]), (0x1FE4, [0x3A1, 0x313]), (0x1FE6, [0x3A5, 0x342]),
    (0x1FE7, [0x3A5, 0x308, 0x342]), (0x1FF2, [0x1FFA, 0x399]), (0x1FF3, [0x3A9, 0x399]),
    (0x1FF4, [0x38F, 0x399]), (0x1FF6, [0x3A9, 0x342]), (0x1FF7, [0x3A9, 0x342, 0x399]),
    (0x1FFC, [0x3A9, 0x399]), (0xFB00, [0x46, 0x46]), (0xFB01, [0x46, 0x49]),
    (0xFB02, [0x46, 0x4C]), (0xFB03, [0x46, 0x46, 0x49]), (0xFB04, [0x46, 0x46, 0x4C]),
    (0xFB05, [0x53, 0x54]), (0xFB06, [0x53, 0x54]), (0xFB13, [0x544, 0x546]),
    (0xFB14, [0x544, 0x535]), (0xFB15, [0x544, 0x53B]), (0xFB16, [0x54E, 0x546]),
    (0xFB17, [0x544, 0x53D])]"

definition upper_runs :: "(nat \<times> nat \<times> nat \<times> nat) list" where
  "upper_runs =
   [(0x61, 0x7A, 1, 0x41), (0xB5, 0xB5, 1, 0x39C), (0xE0, 0xF6, 1, 0xC0),
    (0xF8, 0xFE, 1, 0xD8), (0xFF, 0xFF, 1, 0x178), (0x101, 0x12F, 2, 0x100),
    (0x131, 0x131, 1, 0x49), (0x133, 0x137, 2, 0x132), (0x13A, 0x148, 2, 0x139),
    (0x14B, 0x177, 2, 0x14A), (0x17A, 0x17E, 2, 0x179), (0x17F, 0x17F, 1, 0x53),
    (0x180, 0x180, 1, 0x243), (0x183, 0x185, 2, 0x182), (0x188, 0x188, 1, 0x187),
    (0x18C, 0x18C, 1, 0x18B), (0x192, 0x192, 1, 0x191), (0x195, 0x195, 1, 0x1F6),
    (0x199, 0x199, 1, 0x198), (0x19A, 0x19A, 1, 0x23D), (0x19E, 0x19E, 1, 0x220),
    (0x1A1, 0x1A5, 2, 0x1A0), (0x1A8, 0x1A8, 1, 0x1A7), (0x1AD, 0x1AD, 1, 0x1AC),
    (0x1B0, 0x1B0, 1, 0x1AF), (0x1B4, 0x1B6, 2, 0x1B3), (0x1B9, 0x1B9, 1, 0x1B8),
    (0x1BD, 0x1BD, 1, 0x1BC), (0x1BF, 0x1BF, 1, 0x1F7), (0x1C5, 0x1C5, 1, 0x1C4),
    (0x1C6, 0x1C6, 1, 0x1C4), (0x1C8, 0x1C8, 1, 0x1C7), (0x1C9, 0x1C9, 1, 0x1C7),
    (0x1CB, 0x1CB, 1, 0x1CA), (0x1CC, 0x1CC, 1, 0x1CA), (0x1CE, 0x1DC, 2, 0x1CD),
    (0x1DD, 0x1DD, 1, 0x18E), (0x1DF, 0x1EF, 2, 0x1DE), (0x1F2, 0x1F2, 1, 0x1F1),
    (0x1F3, 0x1F3, 1, 0x1F1), (0x1F5, 0x1F5, 1, 0x1F4), (0x1F9, 0x21F, 2, 0x1F8),
    (0x223, 0x233, 2, 0x222), (0x23C, 0x23C, 1, 0x23B), (0x23F, 0x240, 1, 0x2C7E),
    (0x242, 0x242, 1, 0x241), (0x247, 0x24F, 2, 0x246), (0x250, 0x250, 1, 0x2C6F),
    (0x251, 0x251, 1, 0x2C6D), (0x252, 0x252, 1, 0x2C70), (0x253, 0x253, 1, 0x181),
    (0x254, 0x254, 1, 0x186), (0x256, 0x257, 1, 0x189), (0x259, 0x259, 1, 0x18F),
    (0x25B, 0x25B, 1, 0x190), (0x25C, 0x25C, 1, 0xA7AB), (0x260, 0x260, 1, 0x193),
    (0x261, 0x261, 1, 0xA7AC), (0x263, 0x263, 1, 0x194), (0x265, 0x265, 1, 0xA78D),
    (0x266, 0x266, 1, 0xA7AA), (0x268, 0x268, 1, 0x197), (0x269, 0x269, 1, 0x196),
    (0x26A, 0x26A, 1, 0xA7AE), (0x26B, 0x26B, 1, 0x2C62), (0x26C, 0x26C, 1, 0xA7AD),
    (0x26F, 0x26F, 1, 0x19C), (0x271, 0x271, 1, 0x2C6E), (0x272, 0x272, 1, 0x19D),
    (0x275, 0x275, 1, 0x19F), (0x27D, 0x27D, 1, 0x2C64), (0x280, 0x280, 1, 0x1A6),
    (0x282, 0x282, 1, 0xA7C5), (0x283, 0x283, 1, 0x1A9), (0x287, 0x287, 1, 0xA7B1),
    (0x288, 0x288, 1, 0x1AE), (0x289, 0x289, 1, 0x244), (0x28A, 0x28B, 1, 0x1B1),
    (0x28C, 0x28C, 1, 0x245), (0x292, 0x292, 1, 0x1B7), (0x29D, 0x29D, 1, 0xA7B2),
    (0x29E, 0x29E, 1, 0xA7B0), (0x345, 0x345, 1, 0x399), (0x371, 0x373, 2, 0x370),
    (0x377, 0x377, 1, 0x376), (0x37B, 0x37D, 1, 0x3FD), (0x3AC, 0x3AC, 1, 0x386),
    (0x3AD, 0x3AF, 1, 0x388), (0x3B1, 0x3C1, 1, 0x391), (0x3C2, 0x3C2, 1, 0x3A3),
    (0x3C3, 0x3CB, 1, 0x3A3), (0x3CC, 0x3CC, 1, 0x38C), (0x3CD, 0x3CE, 1, 0x38E),
    (0x3D0, 0x3D0, 1, 0x392), (0x3D1, 0x3D1, 1, 0x398), (0x3D5, 0x3D5, 1, 0x3A6),
    (0x3D6, 0x3D6, 1, 0x3A0), (0x3D7, 0x3D7, 1, 0x3CF), (0x3D9, 0x3EF, 2, 0x3D8),
    (0x3F0, 0x3F0, 1, 0x39A), (0x3F1, 0x3F1, 1, 0x3A1), (0x3F2, 0x3F2, 1, 0x3F9),
    (0x3F3, 0x3F3, 1, 0x37F), (0x3F5, 0x3F5, 1, 0x395), (0x3F8, 0x3F8, 1, 0x3F7),
    (0x3FB, 0x3FB, 1, 0x3FA), (0x430, 0x44F, 1, 0x410), (0x450, 0x45F, 1, 0x400),
    (0x461, 0x481, 2, 0x460), (0x48B, 0x4BF, 2, 0x48A), (0x4C2, 0x4CE, 2, 0x4C1),
    (0x4CF, 0x4CF, 1, 0x4C0), (0x4D1, 0x52F, 2, 0x4D0), (0x561, 0x586, 1, 0x531),
    (0x10D0, 0x10FA, 1, 0x1C90), (0x10FD, 0x10FF, 1, 0x1CBD), (0x13F8, 0x13FD, 1, 0x13F0),
    (0x1C80, 0x1C80, 1, 0x412), (0x1C81, 0x1C81, 1, 0x414), (0x1C82, 0x1C82, 1, 0x41E),
    (0x1C83, 0x1C84, 1, 0x421), (0x1C85, 0x1C85, 1, 0x422), (0x1C86, 0x1C86, 1, 0x42A),
    (0x1C87, 0x1C87, 1, 0x462), (0x1C88, 0x1C88, 1, 0xA64A), (0x1D79, 0x1D79, 1, 0xA77D),
    (0x1D7D, 0x1D7D, 1, 0x2C63), (0x1D8E, 0x1D8E, 1, 0xA7C6), (0x1E01, 0x1E95, 2, 0x1E00),
    (0x1E9B, 0x1E9B, 1, 0x1E60), (0x1EA1, 0x1EFF, 2, 0x1EA0), (0x1F00, 0x1F07, 1, 0x1F08),
    (0x1F10, 0x1F15, 1, 0x1F18), (0x1F20, 0x1F27, 1, 0x1F28), (0x1F30, 0x1F37, 1, 0x1F38),
    (0x1F40, 0x1F45, 1, 0x1F48), (0x1F51, 0x1F57, 2, 0x1F59), (0x1F60, 0x1F67, 1, 0x1F68),
    (0x1F70, 0x1F71, 1, 0x1FBA), (0x1F72, 0x1F75, 1, 0x1FC8), (0x1F76, 0x1F77, 1, 0x1FDA),
    (0x1F78, 0x1F79, 1, 0x1FF8), (0x1F7A, 0x1F7B, 1, 0x1FEA), (0x1F7C, 0x1F7D, 1, 0x1FFA),
    (0x1FB0, 0x1FB1, 1, 0x1FB8), (0x1FBE, 0x1FBE, 1, 0x399), (0x1FD0, 0x1FD1, 1, 0x1FD8),
    (0x1FE0, 0x1FE1, 1, 0x1FE8), (0x1FE5, 0x1FE5, 1, 0x1FEC), (0x214E, 0x214E, 1, 0x2132),
    (0x2170, 0x217F, 1, 0x2160), (0x2184, 0x2184, 1, 0x2183), (0x24D0, 0x24E9, 1, 0x24B6),
    (0x2C30, 0x2C5F, 1, 0x2C00), (0x2C61, 0x2C61, 1, 0x2C60), (0x2C65, 0x2C65, 1, 0x23A),
    (0x2C66, 0x2C66, 1, 0x23E), (0x2C68, 0x2C6C, 2, 0x2C67), (0x2C73, 0x2C73, 1, 0x2C72),
    (0x2C76, 0x2C76, 1, 0x2C75), (0x2C81, 0x2CE3, 2, 0x2C80), (0x2CEC, 0x2CEE, 2, 0x2CEB),
    (0x2CF3, 0x2CF3, 1, 0x2CF2), (0x2D00, 0x2D25, 1, 0x10A0), (0x2D27, 0x2D27, 1, 0x10C7),
    (0x2D2D, 0x2D2D, 1, 0x10CD), (0xA641, 0xA66D, 2, 0xA640), (0xA681, 0xA69B, 2, 0xA680),
    (0xA723, 0xA72F, 2, 0xA722), (0xA733, 0xA76F, 2, 0xA732), (0xA77A, 0xA77C, 2, 0xA779),
    (0xA77F, 0xA787, 2, 0xA77E), (0xA78C, 0xA78C, 1, 0xA78B), (0xA791, 0xA793, 2, 0xA790),
    (0xA794, 0xA794, 1, 0xA7C4), (0xA797, 0xA7A9, 2, 0xA796), (0xA7B5, 0xA7C3, 2, 0xA7B4),
    (0xA7C8, 0xA7CA, 2, 0xA7C7), (0xA7D1, 0xA7D1, 1, 0xA7D0), (0xA7D7, 0xA7D9, 2, 0xA7D6),
    (0xA7F6, 0xA7F6, 1, 0xA7F5), (0xAB53, 0xAB53, 1, 0xA7B3), (0xAB70, 0xABBF, 1, 0x13A0),
    (0xFF41, 0xFF5A, 1, 0xFF21), (0x10428, 0x1044F, 1, 0x10400),
    (0x104D8, 0x104FB, 1, 0x104B0), (0x10597, 0x105BB, 2, 0x10570),
    (0x10598, 0x105A0, 2, 0x10571), (0x105A4, 0x105B0, 2, 0x1057D),
    (0x105B4, 0x105B8, 2, 0x1058D), (0x105BC, 0x105BC, 1, 0x10595),
    (0x10CC0, 0x10CF2, 1, 0x10C80), (0x118C0, 0x118DF, 1, 0x118A0),
    (0x16E60, 0x16E7F, 1, 0x16E40), (0x1E922, 0x1E943, 1, 0x1E900)]"

definition lower_special :: "(nat \<times> nat list) list" where
  "lower_special =
   [(0x130, [0x69, 0x307])]"

definition lower_runs :: "(nat \<times> nat \<times> nat \<times> nat) list" where
  "lower_runs =
   [(0x41, 0x5A, 1, 0x61), (0xC0, 0xD6, 1, 0xE0), (0xD8, 0xDE, 1, 0xF8),
    (0x100, 0x12E, 2, 0x101), (0x132, 0x136, 2, 0x133), (0x139, 0x147, 2, 0x13A),
    (0x14A, 0x176, 2, 0x14B), (0x178, 0x178, 1, 0xFF), (0x179, 0x17D, 2, 0x17A),
    (0x181, 0x181, 1, 0x253), (0x182, 0x184, 2, 0x183), (0x186, 0x186, 1, 0x254),
    (0x187, 0x187, 1, 0x188), (0x189, 0x18A, 1, 0x256), (0x18B, 0x18B, 1, 0x18C),
    (0x18E, 0x18E, 1, 0x1DD), (0x18F, 0x18F, 1, 0x259), (0x190, 0x190, 1, 0x25B),
    (0x191, 0x191, 1, 0x192), (0x193, 0x193, 1, 0x260), (0x194, 0x194, 1, 0x263),
    (0x196, 0x196, 1, 0x269), (0x197, 0x197, 1, 0x268), (0x198, 0x198, 1, 0x199),
    (0x19C, 0x19C, 1, 0x26F), (0x19D, 0x19D, 1, 0x272), (0x19F, 0x19F, 1, 0x275),
    (0x1A0, 0x1A4, 2, 0x1A1), (0x1A6, 0x1A6, 1, 0x280), (0x1A7, 0x1A7, 1, 0x1A8),
    (0x1A9, 0x1A9, 1, 0x283), (0x1AC, 0x1AC, 1, 0x1AD), (0x1AE, 0x1AE, 1, 0x288),
    (0x1AF, 0x1AF, 1, 0x1B0), (0x1B1, 0x1B2, 1, 0x28A), (0x1B3, 0x1B5, 2, 0x1B4),
    (0x1B7, 0x1B7, 1, 0x292), (0x1B8, 0x1B8, 1, 0x1B9), (0x1BC, 0x1BC, 1, 0x1BD),
    (0x1C4, 0x1C4, 1, 0x1C6), (0x1C5, 0x1C5, 1, 0x1C6), (0x1C7, 0x1C7, 1, 0x1C9),
    (0x1C8, 0x1C8, 1, 0x1C9), (0x1CA, 0x1CA, 1, 0x1CC), (0x1CB, 0x1DB, 2, 0x1CC),
    (0x1DE, 0x1EE, 2, 0x1DF), (0x1F1, 0x1F1, 1, 0x1F3), (0x1F2, 0x1F4, 2, 0x1F3),
    (0x1F6, 0x1F6, 1, 0x195), (0x1F7, 0x1F7, 1, 0x1BF), (0x1F8, 0x21E, 2, 0x1F9),
    (0x220, 0x220, 1, 0x19E), (0x222, 0x232, 2, 0x223), (0x23A, 0x23A, 1, 0x2C65),
    (0x23B, 0x23B, 1, 0x23C), (0x23D, 0x23D, 1, 0x19A), (0x23E, 0x23E, 1, 0x2C66),
    (0x241, 0x241, 1, 0x242), (0x243, 0x243, 1, 0x180), (0x244, 0x244, 1, 0x289),
    (0x245, 0x245, 1, 0x28C), (0x246, 0x24E, 2, 0x247), (0x370, 0x372, 2, 0x371),
    (0x376, 0x376, 1, 0x377), (0x37F, 0x37F, 1, 0x3F3), (0x386, 0x386, 1, 0x3AC),
    (0x388, 0x38A, 1, 0x3AD), (0x38C, 0x38C, 1, 0x3CC), (0x38E, 0x38F, 1, 0x3CD),
    (0x391, 0x3A1, 1, 0x3B1), (0x3A3, 0x3AB, 1, 0x3C3), (0x3CF, 0x3CF, 1, 0x3D7),
    (0x3D8, 0x3EE, 2, 0x3D9), (0x3F4, 0x3F4, 1, 0x3B8), (0x3F7, 0x3F7, 1, 0x3F8),
    (0x3F9, 0x3F9, 1, 0x3F2), (0x3FA, 0x3FA, 1, 0x3FB), (0x3FD, 0x3FF, 1, 0x37B),
    (0x400, 0x40F, 1, 0x450), (0x410, 0x42F, 1, 0x430), (0x460, 0x480, 2, 0x461),
    (0x48A, 0x4BE, 2, 0x48B), (0x4C0, 0x4C0, 1, 0x4CF), (0x4C1, 0x4CD, 2, 0x4C2),
    (0x4D0, 0x52E, 2, 0x4D1), (0x531, 0x556, 1, 0x561), (0x10A0, 0x10C5, 1, 0x2D00),
    (0x10C7, 0x10C7, 1, 0x2D27), (0x10CD, 0x10CD, 1, 0x2D2D), (0x13A0, 0x13EF, 1, 0xAB70),
    (0x13F0, 0x13F5, 1, 0x13F8), (0x1C90, 0x1CBA, 1, 0x10D0), (0x1CBD, 0x1CBF, 1, 0x10FD),
    (0x1E00, 0x1E94, 2, 0x1E01), (0x1E9E, 0x1E9E, 1, 0xDF), (0x1EA0, 0x1EFE, 2, 0x1EA1),
    (0x1F08, 0x1F0F, 1, 0x1F00), (0x1F18, 0x1F1D, 1, 0x1F10), (0x1F28, 0x1F2F, 1, 0x1F20),
    (0x1F38, 0x1F3F, 1, 0x1F30), (0x1F48, 0x1F4D, 1, 0x1F40), (0x1F59, 0x1F5F, 2, 0x1F51),
    (0x1F68, 0x1F6F, 1, 0x1F60), (0x1F88, 0x1F8F, 1, 0x1F80), (0x1F98, 0x1F9F, 1, 0x1F90),
    (0x1FA8, 0x1FAF, 1, 0x1FA0), (0x1FB8, 0x1FB9, 1, 0x1FB0), (0x1FBA, 0x1FBB, 1, 0x1F70),
    (0x1FBC, 0x1FBC, 1, 0x1FB3), (0x1FC8, 0x1FCB, 1, 0x1F72), (0x1FCC, 0x1FCC, 1, 0x1FC3),
    (0x1FD8, 0x1FD9, 1, 0x1FD0), (0x1FDA, 0x1FDB, 1, 0x1F76), (0x1FE8, 0x1FE9, 1, 0x1FE0),
    (0x1FEA, 0x1FEB, 1, 0x1F7A), (0x1FEC, 0x1FEC, 1, 0x1FE5), (0x1FF8, 0x1FF9, 1, 0x1F78),
    (0x1FFA, 0x1FFB, 1, 0x1F7C), (0x1FFC, 0x1FFC, 1, 0x1FF3), (0x2126, 0x2126, 1, 0x3C9),
    (0x212A, 0x212A, 1, 0x6B), (0x212B, 0x212B, 1, 0xE5), (0x2132, 0x2132, 1, 0x214E),
    (0x2160, 0x216F, 1, 0x2170), (0x2183, 0x2183, 1, 0x2184), (0x24B6, 0x24CF, 1, 0x24D0),
    (0x2C00, 0x2C2F, 1, 0x2C30), (0x2C60, 0x2C60, 1, 0x2C61), (0x2C62, 0x2C62, 1, 0x26B),
    (0x2C63, 0x2C63, 1, 0x1D7D), (0x2C64, 0x2C64, 1, 0x27D), (0x2C67, 0x2C6B, 2, 0x2C68),
    (0x2C6D, 0x2C6D, 1, 0x251), (0x2C6E, 0x2C6E, 1, 0x271), (0x2C6F, 0x2C6F, 1, 0x250),
    (0x2C70, 0x2C70, 1, 0x252), (0x2C72, 0x2C72, 1, 0x2C73), (0x2C75, 0x2C75, 1, 0x2C76),
    (0x2C7E, 0x2C7F, 1, 0x23F), (0x2C80, 0x2CE2, 2, 0x2C81), (0x2CEB, 0x2CED, 2, 0x2CEC),
    (0x2CF2, 0x2CF2, 1, 0x2CF3), (0xA640, 0xA66C, 2, 0xA641), (0xA680, 0xA69A, 2, 0xA681),
    (0xA722, 0xA72E, 2, 0xA723), (0xA732, 0xA76E, 2, 0xA733), (0xA779, 0xA77B, 2, 0xA77A),
    (0xA77D, 0xA77D, 1, 0x1D79), (0xA77E, 0xA786, 2, 0xA77F), (0xA78B, 0xA78B, 1, 0xA78C),
    (0xA78D, 0xA78D, 1, 0x265), (0xA790, 0xA792, 2, 0xA791), (0xA796, 0xA7A8, 2, 0xA797),
    (0xA7AA, 0xA7AA, 1, 0x266), (0xA7AB, 0xA7AB, 1, 0x25C), (0xA7AC, 0xA7AC, 1, 0x261),
    (0xA7AD, 0xA7AD, 1, 0x26C), (0xA7AE, 0xA7AE, 1, 0x26A), (0xA7B0, 0xA7B0, 1, 0x29E),
    (0xA7B1, 0xA7B1, 1, 0x287), (0xA7B2, 0xA7B2, 1, 0x29D), (0xA7B3, 0xA7B3, 1, 0xAB53),
    (0xA7B4, 0xA7C2, 2, 0xA7B5), (0xA7C4, 0xA7C4, 1, 0xA794), (0xA7C5, 0xA7C5, 1, 0x282),
    (0xA7C6, 0xA7C6, 1, 0x1D8E), (0xA7C7, 0xA7C9, 2, 0xA7C8), (0xA7D0, 0xA7D0, 1, 0xA7D1),
    (0xA7D6, 0xA7D8, 2, 0xA7D7), (0xA7F5, 0xA7F5, 1, 0xA7F6), (0xFF21, 0xFF3A, 1, 0xFF41),
    (0x10400, 0x10427, 1, 0x10428), (0x104B0, 0x104D3, 1, 0x104D8),
    (0x10570, 0x10594, 2, 0x10597), (0x10571, 0x10579, 2, 0x10598),
    (0x1057D, 0x10589, 2, 0x105A4), (0x1058D, 0x10591, 2, 0x105B4),
    (0x10595, 0x10595, 1, 0x105BC), (0x10C80, 0x10CB2, 1, 0x10CC0),
    (0x118A0, 0x118BF, 1, 0x118C0), (0x16E40, 0x16E5F, 1, 0x16E60),
    (0x1E900, 0x1E921, 1, 0x1E922)]"

definition title_special :: "(nat \<times> nat list) list" where
  "title_special =
   [(0xDF, [0x53, 0x73]), (0x149, [0x2BC, 0x4E]), (0x1F0, [0x4A, 0x30C]),
    (0x390, [0x399, 0x308, 0x301]), (0x3B0, [0x3A5, 0x308, 0x301]), (0x587, [0x535, 0x582]),
    (0x1E96, [0x48, 0x331]), (0x1E97, [0x54, 0x308]), (0x1E98, [0x57, 0x30A]),
    (0x1E99, [0x59, 0x30A]), (0x1E9A, [0x41, 0x2BE]), (0x1F50, [0x3A5, 0x313]),
    (0x1F52, [0x3A5, 0x313, 0x300]), (0x1F54, [0x3A5, 0x313, 0x301]),
    (0x1F56, [0x3A5, 0x313, 0x342]), (0x1FB2, [0x1FBA, 0x345]), (0x1FB4, [0x386, 0x345]),
    (0x1FB6, [0x391, 0x342]), (0x1FB7, [0x391, 0x342, 0x345]), (0x1FC2, [0x1FCA, 0x345]),
    (0x1FC4, [0x389, 0x345]), (0x1FC6, [0x397, 0x342]), (0x1FC7, [0x397, 0x342, 0x345]),
    (0x1FD2, [0x399, 0x308, 0x300]), (0x1FD3, [0x399, 0x308, 0x301]), (0x1FD6, [0x399, 0x342]),
    (0x1FD7, [0x399, 0x308, 0x342]), (0x1FE2, [0x3A5, 0x308, 0x300]),
    (0x1FE3, [0x3A5, 0x308, 0x301]), (0x1FE4, [0x3A1, 0x313]), (0x1FE6, [0x3A5, 0x342]),
    (0x1FE7, [0x3A5, 0x308, 0x342]), (0x1FF2, [0x1FFA, 0x345]), (0x1FF4, [0x38F, 0x345]),
    (0x1FF6, [0x3A9, 0x342]), (0x1FF7, [0x3A9, 0x342, 0x345]), (0xFB00, [0x46, 0x66]),
    (0xFB01, [0x46, 0x69]), (0xFB02, [0x46, 0x6C]), (0xFB03, [0x46, 0x66, 0x69]),
    (0xFB04, [0x46, 0x66, 0x6C]), (0xFB05, [0x53, 0x74]), (0xFB06, [0x53, 0x74]),
    (0xFB13, [0x544, 0x576]), (0xFB14, [0x544, 0x565]), (0xFB15, [0x544, 0x56B]),
    (0xFB16, [0x54E, 0x576]), (0xFB17, [0x544, 0x56D])]"

definition title_runs :: "(nat \<times> nat \<times> nat \<times> nat) list" where
  "title_runs =
   [(0x61, 0x7A, 1, 0x41), (0xB5, 0xB5, 1, 0x39C), (0xE0, 0xF6, 1, 0xC0),
    (0xF8, 0xFE, 1, 0xD8), (0xFF, 0xFF, 1, 0x178), (0x101, 0x12F, 2, 0x100),
    (0x131, 0x131, 1, 0x49), (0x133, 0x137, 2, 0x132), (0x13A, 0x148, 2, 0x139),
    (0x14B, 0x177, 2, 0x14A), (0x17A, 0x17E, 2, 0x179), (0x17F, 0x17F, 1, 0x53),
    (0x180, 0x180, 1, 0x243), (0x183, 0x185, 2, 0x182), (0x188, 0x188, 1, 0x187),
    (0x18C, 0x18C, 1, 0x18B), (0x192, 0x192, 1, 0x191), (0x195, 0x195, 1, 0x1F6),
    (0x199, 0x199, 1, 0x198), (0x19A, 0x19A, 1, 0x23D), (0x19E, 0x19E, 1, 0x220),
    (0x1A1, 0x1A5, 2, 0x1A0), (0x1A8, 0x1A8, 1, 0x1A7), (0x1AD, 0x1AD, 1, 0x1AC),
    (0x1B0, 0x1B0, 1, 0x1AF), (0x1B4, 0x1B6, 2, 0x1B3), (0x1B9, 0x1B9, 1, 0x1B8),
    (0x1BD, 0x1BD, 1, 0x1BC), (0x1BF, 0x1BF, 1, 0x1F7), (0x1C4, 0x1C4, 1, 0x1C5),
    (0x1C6, 0x1C6, 1, 0x1C5), (0x1C7, 0x1C7, 1, 0x1C8), (0x1C9, 0x1C9, 1, 0x1C8),
    (0x1CA, 0x1CA, 1, 0x1CB), (0x1CC, 0x1DC, 2, 0x1CB), (0x1DD, 0x1DD, 1, 0x18E),
    (0x1DF, 0x1EF, 2, 0x1DE), (0x1F1, 0x1F1, 1, 0x1F2), (0x1F3, 0x1F5, 2, 0x1F2),
    (0x1F9, 0x21F, 2, 0x1F8), (0x223, 0x233, 2, 0x222), (0x23C, 0x23C, 1, 0x23B),
    (0x23F, 0x240, 1, 0x2C7E), (0x242, 0x242, 1, 0x241), (0x247, 0x24F, 2, 0x246),
    (0x250, 0x250, 1, 0x2C6F), (0x251, 0x251, 1, 0x2C6D), (0x252, 0x252, 1, 0x2C70),
    (0x253, 0x253, 1, 0x181), (0x254, 0x254, 1, 0x186), (0x256, 0x257, 1, 0x189),
    (0x259, 0x259, 1, 0x18F), (0x25B, 0x25B, 1, 0x190), (0x25C, 0x25C, 1, 0xA7AB),
    (0x260, 0x260, 1, 0x193), (0x261, 0x261, 1, 0xA7AC), (0x263, 0x263, 1, 0x194),
    (0x265, 0x265, 1, 0xA78D), (0x266, 0x266, 1, 0xA7AA), (0x268, 0x268, 1, 0x197),
    (0x269, 0x269, 1, 0x196), (0x26A, 0x26A, 1, 0xA7AE), (0x26B, 0x26B, 1, 0x2C62),
    (0x26C, 0x26C, 1, 0xA7AD), (0x26F, 0x26F, 1, 0x19C), (0x271, 0x271, 1, 0x2C6E),
    (0x272, 0x272, 1, 0x19D), (0x275, 0x275, 1, 0x19F), (0x27D, 0x27D, 1, 0x2C64),
    (0x280, 0x280, 1, 0x1A6), (0x282, 0x282, 1, 0xA7C5), (0x283, 0x283, 1, 0x1A9),
    (0x287, 0x287, 1, 0xA7B1), (0x288, 0x288, 1, 0x1AE), (0x289, 0x289, 1, 0x244),
    (0x28A, 0x28B, 1, 0x1B1), (0x28C, 0x28C, 1, 0x245), (0x292, 0x292, 1, 0x1B7),
    (0x29D, 0x29D, 1, 0xA7B2), (0x29E, 0x29E, 1, 0xA7B0), (0x345, 0x345, 1, 0x399),
    (0x371, 0x373, 2, 0x370), (0x377, 0x377, 1, 0x376), (0x37B, 0x37D, 1, 0x3FD),
    (0x3AC, 0x3AC, 1, 0x386), (0x3AD, 0x3AF, 1, 0x388), (0x3B1, 0x3C1, 1, 0x391),
    (0x3C2, 0x3C2, 1, 0x3A3), (0x3C3, 0x3CB, 1, 0x3A3), (0x3CC, 0x3CC, 1, 0x38C),
    (0x3CD, 0x3CE, 1, 0x38E), (0x3D0, 0x3D0, 1, 0x392), (0x3D1, 0x3D1, 1, 0x398),
    (0x3D5, 0x3D5, 1, 0x3A6), (0x3D6, 0x3D6, 1, 0x3A0), (0x3D7, 0x3D7, 1, 0x3CF),
    (0x3D9, 0x3EF, 2, 0x3D8), (0x3F0, 0x3F0, 1, 0x39A), (0x3F1, 0x3F1, 1, 0x3A1),
    (0x3F2, 0x3F2, 1, 0x3F9), (0x3F3, 0x3F3, 1, 0x37F), (0x3F5, 0x3F5, 1, 0x395),
    (0x3F8, 0x3F8, 1, 0x3F7), (0x3FB, 0x3FB, 1, 0x3FA), (0x430, 0x44F, 1, 0x410),
    (0x450, 0x45F, 1, 0x400), (0x461, 0x481, 2, 0x460), (0x48B, 0x4BF, 2, 0x48A),
    (0x4C2, 0x4CE, 2, 0x4C1), (0x4CF, 0x4CF, 1, 0x4C0), (0x4D1, 0x52F, 2, 0x4D0),
    (0x561, 0x586, 1, 0x531), (0x13F8, 0x13FD, 1, 0x13F0), (0x1C80, 0x1C80, 1, 0x412),
    (0x1C81, 0x1C81, 1, 0x414), (0x1C82, 0x1C82, 1, 0x41E), (0x1C83, 0x1C84, 1, 0x421),
    (0x1C85, 0x1C85, 1, 0x422), (0x1C86, 0x1C86, 1, 0x42A), (0x1C87, 0x1C87, 1, 0x462),
    (0x1C88, 0x1C88, 1, 0xA64A), (0x1D79, 0x1D79, 1, 0xA77D), (0x1D7D, 0x1D7D, 1, 0x2C63),
    (0x1D8E, 0x1D8E, 1, 0xA7C6), (0x1E01, 0x1E95, 2, 0x1E00), (0x1E9B, 0x1E9B, 1, 0x1E60),
    (0x1EA1, 0x1EFF, 2, 0x1EA0), (0x1F00, 0x1F07, 1, 0x1F08), (0x1F10, 0x1F15, 1, 0x1F18),
    (0x1F20, 0x1F27, 1, 0x1F28), (0x1F30, 0x1F37, 1, 0x1F38), (0x1F40, 0x1F45, 1, 0x1F48),
    (0x1F51, 0x1F57, 2, 0x1F59), (0x1F60, 0x1F67, 1, 0x1F68), (0x1F70, 0x1F71, 1, 0x1FBA),
    (0x1F72, 0x1F75, 1, 0x1FC8), (0x1F76, 0x1F77, 1, 0x1FDA), (0x1F78, 0x1F79, 1, 0x1FF8),
    (0x1F7A, 0x1F7B, 1, 0x1FEA), (0x1F7C, 0x1F7D, 1, 0x1FFA), (0x1F80, 0x1F87, 1, 0x1F88),
    (0x1F90, 0x1F97, 1, 0x1F98), (0x1FA0, 0x1FA7, 1, 0x1FA8), (0x1FB0, 0x1FB1, 1, 0x1FB8),
    (0x1FB3, 0x1FB3, 1, 0x1FBC), (0x1FBE, 0x1FBE, 1, 0x399), (0x1FC3, 0x1FC3, 1, 0x1FCC),
    (0x1FD0, 0x1FD1, 1, 0x1FD8), (0x1FE0, 0x1FE1, 1, 0x1FE8), (0x1FE5, 0x1FE5, 1, 0x1FEC),
    (0x1FF3, 0x1FF3, 1, 0x1FFC), (0x214E, 0x214E, 1, 0x2132), (0x2170, 0x217F, 1, 0x2160),
    (0x2184, 0x2184, 1, 0x2183), (0x24D0, 0x24E9, 1, 0x24B6), (0x2C30, 0x2C5F, 1, 0x2C00),
    (0x2C61, 0x2C61, 1, 0x2C60), (0x2C65, 0x2C65, 1, 0x23A), (0x2C66, 0x2C66, 1, 0x23E),
    (0x2C68, 0x2C6C, 2, 0x2C67), (0x2C73, 0x2C73, 1, 0x2C72), (0x2C76, 0x2C76, 1, 0x2C75),
    (0x2C81, 0x2CE3, 2, 0x2C80), (0x2CEC, 0x2CEE, 2, 0x2CEB), (0x2CF3, 0x2CF3, 1, 0x2CF2),
    (0x2D00, 0x2D25, 1, 0x10A0), (0x2D27, 0x2D27, 1, 0x10C7), (0x2D2D, 0x2D2D, 1, 0x10CD),
    (0xA641, 0xA66D, 2, 0xA640), (0xA681, 0xA69B, 2, 0xA680), (0xA723, 0xA72F, 2, 0xA722),
    (0xA733, 0xA76F, 2, 0xA732), (0xA77A, 0xA77C, 2, 0xA779), (0xA77F, 0xA787, 2, 0xA77E),
    (0xA78C, 0xA78C, 1, 0xA78B), (0xA791, 0xA793, 2, 0xA790), (0xA794, 0xA794, 1, 0xA7C4),
    (0xA797, 0xA7A9, 2, 0xA796), (0xA7B5, 0xA7C3, 2, 0xA7B4), (0xA7C8, 0xA7CA, 2, 0xA7C7),
    (0xA7D1, 0xA7D1, 1, 0xA7D0), (0xA7D7, 0xA7D9, 2, 0xA7D6), (0xA7F6, 0xA7F6, 1, 0xA7F5),
    (0xAB53, 0xAB53, 1, 0xA7B3), (0xAB70, 0xABBF, 1, 0x13A0), (0xFF41, 0xFF5A, 1, 0xFF21),
    (0x10428, 0x1044F, 1, 0x10400), (0x104D8, 0x104FB, 1, 0x104B0),
    (0x10597, 0x105BB, 2, 0x10570), (0x10598, 0x105A0, 2, 0x10571),
    (0x105A4, 0x105B0, 2, 0x1057D), (0x105B4, 0x105B8, 2, 0x1058D),
    (0x105BC, 0x105BC, 1, 0x10595), (0x10CC0, 0x10CF2, 1, 0x10C80),
    (0x118C0, 0x118DF, 1, 0x118A0), (0x16E60, 0x16E7F, 1, 0x16E40),
    (0x1E922, 0x1E943, 1, 0x1E900)]"

definition cased_ranges :: "(nat \<times> nat) list" where
  "cased_ranges =
   [(0x41, 0x5A), (0x61, 0x7A), (0xAA, 0xAA), (0xB5, 0xB5), (0xBA, 0xBA), (0xC0, 0xD6),
    (0xD8, 0xF6), (0xF8, 0x1BA), (0x1BC, 0x1BF), (0x1C4, 0x293), (0x295, 0x2B8),
    (0x2C0, 0x2C1), (0x2E0, 0x2E4), (0x345, 0x345), (0x370, 0x373), (0x376, 0x377),
    (0x37A, 0x37D), (0x37F, 0x37F), (0x386, 0x386), (0x388, 0x38A), (0x38C, 0x38C),
    (0x38E, 0x3A1), (0x3A3, 0x3F5), (0x3F7, 0x481), (0x48A, 0x52F), (0x531, 0x556),
    (0x560, 0x588), (0x10A0, 0x10C5), (0x10C7, 0x10C7), (0x10CD, 0x10CD), (0x10D0, 0x10FA),
    (0x10FD, 0x10FF), (0x13A0, 0x13F5), (0x13F8, 0x13FD), (0x1C80, 0x1C88), (0x1C90, 0x1CBA),
    (0x1CBD, 0x1CBF), (0x1D00, 0x1DBF), (0x1E00, 0x1F15), (0x1F18, 0x1F1D), (0x1F20, 0x1F45),
    (0x1F48, 0x1F4D), (0x1F50, 0x1F57), (0x1F59, 0x1F59), (0x1F5B, 0x1F5B), (0x1F5D, 0x1F5D),
    (0x1F5F, 0x1F7D), (0x1F80, 0x1FB4), (0x1FB6, 0x1FBC), (0x1FBE, 0x1FBE), (0x1FC2, 0x1FC4),
    (0x1FC6, 0x1FCC), (0x1FD0, 0x1FD3), (0x1FD6, 0x1FDB), (0x1FE0, 0x1FEC), (0x1FF2, 0x1FF4),
    (0x1FF6, 0x1FFC), (0x2071, 0x2071), (0x207F, 0x207F), (0x2090, 0x209C), (0x2102, 0x2102),
    (0x2107, 0x2107), (0x210A, 0x2113), (0x2115, 0x2115), (0x2119, 0x211D), (0x2124, 0x2124),
    (0x2126, 0x2126), (0x2128, 0x2128), (0x212A, 0x212D), (0x212F, 0x2134), (0x2139, 0x2139),
    (0x213C, 0x213F), (0x2145, 0x2149), (0x214E, 0x214E), (0x2160, 0x217F), (0x2183, 0x2184),
    (0x24B6, 0x24E9), (0x2C00, 0x2CE4), (0x2CEB, 0x2CEE), (0x2CF2, 0x2CF3), (0x2D00, 0x2D25),
    (0x2D27, 0x2D27), (0x2D2D, 0x2D2D), (0xA640, 0xA66D), (0xA680, 0xA69D), (0xA722, 0xA787),
    (0xA78B, 0xA78E), (0xA790, 0xA7CA), (0xA7D0, 0xA7D1), (0xA7D3, 0xA7D3), (0xA7D5, 0xA7D9),
    (0xA7F5, 0xA7F6), (0xA7F8, 0xA7FA), (0xAB30, 0xAB5A), (0xAB5C, 0xAB68), (0xAB70, 0xABBF),
    (0xFB00, 0xFB06), (0xFB13, 0xFB17), (0xFF21, 0xFF3A), (0xFF41, 0xFF5A), (0x10400, 0x1044F),
    (0x104B0, 0x104D3), (0x104D8, 0x104FB), (0x10570, 0x1057A), (0x1057C, 0x1058A),
    (0x1058C, 0x10592), (0x10594, 0x10595), (0x10597, 0x105A1), (0x105A3, 0x105B1),
    (0x105B3, 0x105B9), (0x105BB, 0x105BC), (0x10780, 0x10780), (0x10783, 0x10785),
    (0x10787, 0x107B0), (0x107B2, 0x107BA), (0x10C80, 0x10CB2), (0x10CC0, 0x10CF2),
    (0x118A0, 0x118DF), (0x16E40, 0x16E7F), (0x1D400, 0x1D454), (0x1D456, 0x1D49C),
    (0x1D49E, 0x1D49F), (0x1D4A2, 0x1D4A2), (0x1D4A5, 0x1D4A6), (0x1D4A9, 0x1D4AC),
    (0x1D4AE, 0x1D4B9), (0x1D4BB, 0x1D4BB), (0x1D4BD, 0x1D4C3), (0x1D4C5, 0x1D505),
    (0x1D507, 0x1D50A), (0x1D50D, 0x1D514), (0x1D516, 0x1D51C), (0x1D51E, 0x1D539),
    (0x1D53B, 0x1D53E), (0x1D540, 0x1D544), (0x1D546, 0x1D546), (0x1D54A, 0x1D550),
    (0x1D552, 0x1D6A5), (0x1D6A8, 0x1D6C0), (0x1D6C2, 0x1D6DA), (0x1D6DC, 0x1D6FA),
    (0x1D6FC, 0x1D714), (0x1D716, 0x1D734), (0x1D736, 0x1D74E), (0x1D750, 0x1D76E),
    (0x1D770, 0x1D788), (0x1D78A, 0x1D7A8), (0x1D7AA, 0x1D7C2), (0x1D7C4, 0x1D7CB),
    (0x1DF00, 0x1DF09), (0x1DF0B, 0x1DF1E), (0x1E900, 0x1E943), (0x1F130, 0x1F149),
    (0x1F150, 0x1F169), (0x1F170, 0x1F189)]"

definition case_ignorable_ranges :: "(nat \<times> nat) list" where
  "case_ignorable_ranges =
   [(0x27, 0x27), (0x2E, 0x2E), (0x3A, 0x3A), (0x5E, 0x5E), (0x60, 0x60), (0xA8, 0xA8),
    (0xAD, 0xAD), (0xAF, 0xAF), (0xB4, 0xB4), (0xB7, 0xB8), (0x2B0, 0x36F), (0x374, 0x375),
    (0x37A, 0x37A), (0x384, 0x385), (0x387, 0x387), (0x483, 0x489), (0x559, 0x559),
    (0x55F, 0x55F), (0x591, 0x5BD), (0x5BF, 0x5BF), (0x5C1, 0x5C2), (0x5C4, 0x5C5),
    (0x5C7, 0x5C7), (0x5F4, 0x5F4), (0x600, 0x605), (0x610, 0x61A), (0x61C, 0x61C),
    (0x640, 0x640), (0x64B, 0x65F), (0x670, 0x670), (0x6D6, 0x6DD), (0x6DF, 0x6E8),
    (0x6EA, 0x6ED), (0x70F, 0x70F), (0x711, 0x711), (0x730, 0x74A), (0x7A6, 0x7B0),
    (0x7EB, 0x7F5), (0x7FA, 0x7FA), (0x7FD, 0x7FD), (0x816, 0x82D), (0x859, 0x85B),
    (0x888, 0x888), (0x890, 0x891), (0x898, 0x89F), (0x8C9, 0x902), (0x93A, 0x93A),
    (0x93C, 0x93C), (0x941, 0x948), (0x94D, 0x94D), (0x951, 0x957), (0x962, 0x963),
    (0x971, 0x971), (0x981, 0x981), (0x9BC, 0x9BC), (0x9C1, 0x9C4), (0x9CD, 0x9CD),
    (0x9E2, 0x9E3), (0x9FE, 0x9FE), (0xA01, 0xA02), (0xA3C, 0xA3C), (0xA41, 0xA42),
    (0xA47, 0xA48), (0xA4B, 0xA4D), (0xA51, 0xA51), (0xA70, 0xA71), (0xA75, 0xA75),
    (0xA81, 0xA82), (0xABC, 0xABC), (0xAC1, 0xAC5), (0xAC7, 0xAC8), (0xACD, 0xACD),
    (0xAE2, 0xAE3), (0xAFA, 0xAFF), (0xB01, 0xB01), (0xB3C, 0xB3C), (0xB3F, 0xB3F),
    (0xB41, 0xB44), (0xB4D, 0xB4D), (0xB55, 0xB56), (0xB62, 0xB63), (0xB82, 0xB82),
    (0xBC0, 0xBC0), (0xBCD, 0xBCD), (0xC00, 0xC00), (0xC04, 0xC04), (0xC3C, 0xC3C),
    (0xC3E, 0xC40), (0xC46, 0xC48), (0xC4A, 0xC4D), (0xC55, 0xC56), (0xC62, 0xC63),
    (0xC81, 0xC81), (0xCBC, 0xCBC), (0xCBF, 0xCBF), (0xCC6, 0xCC6), (0xCCC, 0xCCD),
    (0xCE2, 0xCE3), (0xD00, 0xD01), (0xD3B, 0xD3C), (0xD41, 0xD44), (0xD4D, 0xD4D),
    (0xD62, 0xD63), (0xD81, 0xD81), (0xDCA, 0xDCA), (0xDD2, 0xDD4), (0xDD6, 0xDD6),
    (0xE31, 0xE31), (0xE34, 0xE3A), (0xE46, 0xE4E), (0xEB1, 0xEB1), (0xEB4, 0xEBC),
    (0xEC6, 0xEC6), (0xEC8, 0xECD), (0xF18, 0xF19), (0xF35, 0xF35), (0xF37, 0xF37),
    (0xF39, 0xF39), (0xF71, 0xF7E), (0xF80, 0xF84), (0xF86, 0xF87), (0xF8D, 0xF97),
    (0xF99, 0xFBC), (0xFC6, 0xFC6), (0x102D, 0x1030), (0x1032, 0x1037), (0x1039, 0x103A),
    (0x103D, 0x103E), (0x1058, 0x1059), (0x105E, 0x1060), (0x1071, 0x1074), (0x1082, 0x1082),
    (0x1085, 0x1086), (0x108D, 0x108D), (0x109D, 0x109D), (0x10FC, 0x10FC), (0x135D, 0x135F),
    (0x1712, 0x1714), (0x1732, 0x1733), (0x1752, 0x1753), (0x1772, 0x1773), (0x17B4, 0x17B5),
    (0x17B7, 0x17BD), (0x17C6, 0x17C6), (0x17C9, 0x17D3), (0x17D7, 0x17D7), (0x17DD, 0x17DD),
    (0x180B, 0x180F), (0x1843, 0x1843), (0x1885, 0x1886), (0x18A9, 0x18A9), (0x1920, 0x1922),
    (0x1927, 0x1928), (0x1932, 0x1932), (0x1939, 0x193B), (0x1A17, 0x1A18), (0x1A1B, 0x1A1B),
    (0x1A56, 0x1A56), (0x1A58, 0x1A5E), (0x1A60, 0x1A60), (0x1A62, 0x1A62), (0x1A65, 0x1A6C),
    (0x1A73, 0x1A7C), (0x1A7F, 0x1A7F), (0x1AA7, 0x1AA7), (0x1AB0, 0x1ACE), (0x1B00, 0x1B03),
    (0x1B34, 0x1B34), (0x1B36, 0x1B3A), (0x1B3C, 0x1B3C), (0x1B42, 0x1B42), (0x1B6B, 0x1B73),
    (0x1B80, 0x1B81), (0x1BA2, 0x1BA5), (0x1BA8, 0x1BA9), (0x1BAB, 0x1BAD), (0x1BE6, 0x1BE6),
    (0x1BE8, 0x1BE9), (0x1BED, 0x1BED), (0x1BEF, 0x1BF1), (0x1C2C, 0x1C33), (0x1C36, 0x1C37),
    (0x1C78, 0x1C7D), (0x1CD0, 0x1CD2), (0x1CD4, 0x1CE0), (0x1CE2, 0x1CE8), (0x1CED, 0x1CED),
    (0x1CF4, 0x1CF4), (0x1CF8, 0x1CF9), (0x1D2C, 0x1D6A), (0x1D78, 0x1D78), (0x1D9B, 0x1DFF),
    (0x1FBD, 0x1FBD), (0x1FBF, 0x1FC1), (0x1FCD, 0x1FCF), (0x1FDD, 0x1FDF), (0x1FED, 0x1FEF),
    (0x1FFD, 0x1FFE), (0x200B, 0x200F), (0x2018, 0x2019), (0x2024, 0x2024), (0x2027, 0x2027),
    (0x202A, 0x202E), (0x2060, 0x2064), (0x2066, 0x206F), (0x2071, 0x2071), (0x207F, 0x207F),
    (0x2090, 0x209C), (0x20D0, 0x20F0), (0x2C7C, 0x2C7D), (0x2CEF, 0x2CF1), (0x2D6F, 0x2D6F),
    (0x2D7F, 0x2D7F), (0x2DE0, 0x2DFF), (0x2E2F, 0x2E2F), (0x3005, 0x3005), (0x302A, 0x302D),
    (0x3031, 0x3035), (0x303B, 0x303B), (0x3099, 0x309E), (0x30FC, 0x30FE), (0xA015, 0xA015),
    (0xA4F8, 0xA4FD), (0xA60C, 0xA60C), (0xA66F, 0xA672), (0xA674, 0xA67D), (0xA67F, 0xA67F),
    (0xA69C, 0xA69F), (0xA6F0, 0xA6F1), (0xA700, 0xA721), (0xA770, 0xA770), (0xA788, 0xA78A),
    (0xA7F2, 0xA7F4), (0xA7F8, 0xA7F9), (0xA802, 0xA802), (0xA806, 0xA806), (0xA80B, 0xA80B),
    (0xA825, 0xA826), (0xA82C, 0xA82C), (0xA8C4, 0xA8C5), (0xA8E0, 0xA8F1), (0xA8FF, 0xA8FF),
    (0xA926, 0xA92D), (0xA947, 0xA951), (0xA980, 0xA982), (0xA9B3, 0xA9B3), (0xA9B6, 0xA9B9),
    (0xA9BC, 0xA9BD), (0xA9CF, 0xA9CF), (0xA9E5, 0xA9E6), (0xAA29, 0xAA2E), (0xAA31, 0xAA32),
    (0xAA35, 0xAA36), (0xAA43, 0xAA43), (0xAA4C, 0xAA4C), (0xAA70, 0xAA70), (0xAA7C, 0xAA7C),
    (0xAAB0, 0xAAB0), (0xAAB2, 0xAAB4), (0xAAB7, 0xAAB8), (0xAABE, 0xAABF), (0xAAC1, 0xAAC1),
    (0xAADD, 0xAADD), (0xAAEC, 0xAAED), (0xAAF3, 0xAAF4), (0xAAF6, 0xAAF6), (0xAB5B, 0xAB5F),
    (0xAB69, 0xAB6B), (0xABE5, 0xABE5), (0xABE8, 0xABE8), (0xABED, 0xABED), (0xFB1E, 0xFB1E),
    (0xFBB2, 0xFBC2), (0xFE00, 0xFE0F), (0xFE13, 0xFE13), (0xFE20, 0xFE2F), (0xFE52, 0xFE52),
    (0xFE55, 0xFE55), (0xFEFF, 0xFEFF), (0xFF07, 0xFF07), (0xFF0E, 0xFF0E), (0xFF1A, 0xFF1A),
    (0xFF3E, 0xFF3E), (0xFF40, 0xFF40), (0xFF70, 0xFF70), (0xFF9E, 0xFF9F), (0xFFE3, 0xFFE3),
    (0xFFF9, 0xFFFB), (0x101FD, 0x101FD), (0x102E0, 0x102E0), (0x10376, 0x1037A),
    (0x10780, 0x10785), (0x10787, 0x107B0), (0x107B2, 0x107BA), (0x10A01, 0x10A03),
    (0x10A05, 0x10A06), (0x10A0C, 0x10A0F), (0x10A38, 0x10A3A), (0x10A3F, 0x10A3F),
    (0x10AE5, 0x10AE6), (0x10D24, 0x10D27), (0x10EAB, 0x10EAC), (0x10F46, 0x10F50),
    (0x10F82, 0x10F85), (0x11001, 0x11001), (0x11038, 0x11046), (0x11070, 0x11070),
    (0x11073, 0x11074), (0x1107F, 0x11081), (0x110B3, 0x110B6), (0x110B9, 0x110BA),
    (0x110BD, 0x110BD), (0x110C2, 0x110C2), (0x110CD, 0x110CD), (0x11100, 0x11102),
    (0x11127, 0x1112B), (0x1112D, 0x11134), (0x11173, 0x11173), (0x11180, 0x11181),
    (0x111B6, 0x111BE), (0x111C9, 0x111CC), (0x111CF, 0x111CF), (0x1122F, 0x11231),
    (0x11234, 0x11234), (0x11236, 0x11237), (0x1123E, 0x1123E), (0x112DF, 0x112DF),
    (0x112E3, 0x112EA), (0x11300, 0x11301), (0x1133B, 0x1133C), (0x11340, 0x11340),
    (0x11366, 0x1136C), (0x11370, 0x11374), (0x11438, 0x1143F), (0x11442, 0x11444),
    (0x11446, 0x11446), (0x1145E, 0x1145E), (0x114B3, 0x114B8), (0x114BA, 0x114BA),
    (0x114BF, 0x114C0), (0x114C2, 0x114C3), (0x115B2, 0x115B5), (0x115BC, 0x115BD),
    (0x115BF, 0x115C0), (0x115DC, 0x115DD), (0x11633, 0x1163A), (0x1163D, 0x1163D),
    (0x1163F, 0x11640), (0x116AB, 0x116AB), (0x116AD, 0x116AD), (0x116B0, 0x116B5),
    (0x116B7, 0x116B7), (0x1171D, 0x1171F), (0x11722, 0x11725), (0x11727, 0x1172B),
    (0x1182F, 0x11837), (0x11839, 0x1183A), (0x1193B, 0x1193C), (0x1193E, 0x1193E),
    (0x11943, 0x11943), (0x119D4, 0x119D7), (0x119DA, 0x119DB), (0x119E0, 0x119E0),
    (0x11A01, 0x11A0A), (0x11A33, 0x11A38), (0x11A3B, 0x11A3E), (0x11A47, 0x11A47),
    (0x11A51, 0x11A56), (0x11A59, 0x11A5B), (0x11A8A, 0x11A96), (0x11A98, 0x11A99),
    (0x11C30, 0x11C36), (0x11C38, 0x11C3D), (0x11C3F, 0x11C3F), (0x11C92, 0x11CA7),
    (0x11CAA, 0x11CB0), (0x11CB2, 0x11CB3), (0x11CB5, 0x11CB6), (0x11D31, 0x11D36),
    (0x11D3A, 0x11D3A), (0x11D3C, 0x11D3D), (0x11D3F, 0x11D45), (0x11D47, 0x11D47),
    (0x11D90, 0x11D91), (0x11D95, 0x11D95), (0x11D97, 0x11D97), (0x11EF3, 0x11EF4),
    (0x13430, 0x13438), (0x16AF0, 0x16AF4), (0x16B30, 0x16B36), (0x16B40, 0x16B43),
    (0x16F4F, 0x16F4F), (0x16F8F, 0x16F9F), (0x16FE0, 0x16FE1), (0x16FE3, 0x16FE4),
    (0x1AFF0, 0x1AFF3), (0x1AFF5, 0x1AFFB), (0x1AFFD, 0x1AFFE), (0x1BC9D, 0x1BC9E),
    (0x1BCA0, 0x1BCA3), (0x1CF00, 0x1CF2D), (0x1CF30, 0x1CF46), (0x1D167, 0x1D169),
    (0x1D173, 0x1D182), (0x1D185, 0x1D18B), (0x1D1AA, 0x1D1AD), (0x1D242, 0x1D244),
    (0x1DA00, 0x1DA36), (0x1DA3B, 0x1DA6C), (0x1DA75, 0x1DA75), (0x1DA84, 0x1DA84),
    (0x1DA9B, 0x1DA9F), (0x1DAA1, 0x1DAAF), (0x1E000, 0x1E006), (0x1E008, 0x1E018),
    (0x1E01B, 0x1E021), (0x1E023, 0x1E024), (0x1E026, 0x1E02A), (0x1E130, 0x1E13D),
    (0x1E2AE, 0x1E2AE), (0x1E2EC, 0x1E2EF), (0x1E8D0, 0x1E8D6), (0x1E944, 0x1E94B),
    (0x1F3FB, 0x1F3FF), (0xE0001, 0xE0001), (0xE0020, 0xE007F), (0xE0100, 0xE01EF)]"

fun run_lookup :: "(nat \<times> nat \<times> nat \<times> nat) list \<Rightarrow> nat \<Rightarrow> nat option" where
  "run_lookup [] c = None"
| "run_lookup ((lo, hi, step, to) # runs) c =
     (if lo \<le> c \<and> c \<le> hi \<and> (c - lo) mod step = 0 then Some (to + (c - lo))
      else run_lookup runs c)"

definition case_map ::
  "(nat \<times> nat list) list \<Rightarrow> (nat \<times> nat \<times> nat \<times> nat) list \<Rightarrow> nat \<Rightarrow> nat list" where
  "case_map special runs c =
     (case map_of special c of
        Some m \<Rightarrow> m
      | None \<Rightarrow> (case run_lookup runs c of Some m \<Rightarrow> [m] | None \<Rightarrow> [c]))"

definition to_upper_full :: "nat \<Rightarrow> nat list" where
  "to_upper_full c = case_map upper_special upper_runs c"

definition to_lower_full :: "nat \<Rightarrow> nat list" where
  "to_lower_full c = case_map lower_special lower_runs c"

definition to_title_full :: "nat \<Rightarrow> nat list" where
  "to_title_full c = case_map title_special title_runs c"

definition in_ranges :: "(nat \<times> nat) list \<Rightarrow> nat \<Rightarrow> bool" where
  "in_ranges rs c = list_ex (\<lambda>(lo, hi). lo \<le> c \<and> c \<le> hi) rs"

definition is_cased :: "nat \<Rightarrow> bool" where
  "is_cased c = in_ranges cased_ranges c"

definition is_case_ignorable :: "nat \<Rightarrow> bool" where
  "is_case_ignorable c = in_ranges case_ignorable_ranges c"

text \<open>\<^verbatim>\<open>s.upper()\<close>: the full upper-case mapping of every code point, in order.\<close>

definition upper :: "pystr \<Rightarrow> pystr" where
  "upper s = concat (map to_upper_full s)"

text \<open>
  \<^verbatim>\<open>s.title()\<close>: a code point that follows a cased one is lower-cased, any other is
  title-cased. Lower-casing treats capital sigma (U+03A3) by its context: it becomes the
  final sigma U+03C2 when the nearest code point before it that is not case-ignorable is
  cased and the nearest such code point after it, if any, is not cased; else U+03C3.
\<close>

definition handle_capital_sigma :: "pystr \<Rightarrow> nat \<Rightarrow> nat" where
  "handle_capital_sigma s i =
     (let final_sigma =
            (case dropWhile is_case_ignorable (rev (take i s)) of
               [] \<Rightarrow> False
             | c # _ \<Rightarrow> is_cased c);
          final_sigma =
            (if final_sigma
             then (case dropWhile is_case_ignorable (drop (Suc i) s) of
                     [] \<Rightarrow> True
                   | c # _ \<Rightarrow> \<not> is_cased c)
             else final_sigma)
      in if final_sigma then 0x3C2 else 0x3C3)"

definition lower_ucs4 :: "pystr \<Rightarrow> nat \<Rightarrow> nat \<Rightarrow> nat list" where
  "lower_ucs4 s i c = (if c = 0x3A3 then [handle_capital_sigma s i] else to_lower_full c)"

fun do_title :: "pystr \<Rightarrow> nat \<Rightarrow> bool \<Rightarrow> pystr \<Rightarrow> pystr" where
  "do_title s i previous_is_cased [] = []"
| "do_title s i previous_is_cased (c # cs) =
     (if previous_is_cased then lower_ucs4 s i c else to_title_full c)
     @ do_title s (Suc i) (is_cased c) cs"

definition title :: "pystr \<Rightarrow> pystr" where
  "title s = do_title s 0 False s"

subsection \<open>Exceptions and HTTP outcomes\<close>

text \<open>
  An exception is known to the handlers only through \<^verbatim>\<open>str(e)\<close>. Only instances of
  \<^verbatim>\<open>Exception\<close> are modelled (what \<^verbatim>\<open>except Exception\<close> catches).
\<close>

datatype exn = Exception (str: pystr)

datatype http_error = HTTPException (status_code: nat) (detail: pystr)

text \<open>A handler that returns is answered with status 200; a raised HTTPException carries its own.\<close>

fun http_status :: "http_error + 'a \<Rightarrow> nat" where
  "http_status (Inr _) = 200"
| "http_status (Inl (HTTPException c _)) = c"

subsection \<open>Values and documents\<close>

record datetime =
  year :: nat
  month :: nat
  day :: nat
  hour :: nat
  minute :: nat
  second :: nat
  microsecond :: nat

datatype pyval =
    PStr pystr
  | PInt int
  | PNone
  | PObjectId pystr
  | PDatetime datetime

type_synonym doc = "(pystr \<times> pyval) list"

subsection \<open>Request and response models\<close>

record SearchQuery =
  type :: pystr
  origin :: "pystr option"
  destination :: "pystr option"
  date :: "pystr option"
  city :: "pystr option"
  checkin :: "pystr option"
  checkout :: "pystr option"

record FlightOption =
  airline :: pystr
  flight_number :: pystr
  depart_time :: pystr
  arrive_time :: pystr
  duration :: pystr
  price :: real
  origin :: pystr
  destination :: pystr

record HotelOption =
  name :: pystr
  location :: pystr
  rating :: real
  price_per_night :: real
  image :: "pystr option"

record TrainOption =
  train_name :: pystr
  train_number :: pystr
  depart_time :: pystr
  arrive_time :: pystr
  duration :: pystr
  price :: real
  origin :: pystr
  destination :: pystr

text \<open>What a handler hands to \<^verbatim>\<open>create_document\<close>: a SearchQuery model or a dict literal.\<close>

datatype payload = Model SearchQuery | Dict doc

subsection \<open>The mock search endpoints\<close>

text \<open>
  \<^verbatim>\<open>try: create_document(...) except Exception: pass\<close>: the result of the call, be it
  an identifier or an exception, is dropped; only the world it leaves is kept.
  The query parameters carry the prefix \<open>q_\<close>, since their plain names are the fields
  of the response models.
\<close>

definition try_pass :: "('w \<Rightarrow> (exn + 'a) \<times> 'w) \<Rightarrow> 'w \<Rightarrow> 'w" where
  "try_pass call w = (case call w of (Inr _, w') \<Rightarrow> w' | (Inl _, w') \<Rightarrow> w')"

definition search_flights ::
  "(pystr \<Rightarrow> payload \<Rightarrow> 'w \<Rightarrow> (exn + pystr) \<times> 'w) \<Rightarrow> pystr \<Rightarrow> pystr \<Rightarrow> pystr \<Rightarrow> 'w
     \<Rightarrow> (http_error + FlightOption list) \<times> 'w" where
  "search_flights create_document q_origin q_destination q_date w =
     (let base_price = 79;
          flights =
            [\<lparr>airline = lit ''SkyJet'', flight_number = lit ''SJ201'',
              FlightOption.depart_time = q_date @ lit ''T06:30'',
              FlightOption.arrive_time = q_date @ lit ''T09:05'',
              FlightOption.duration = lit ''2h 35m'',
              FlightOption.price = base_price + 20,
              FlightOption.origin = upper q_origin,
              FlightOption.destination = upper q_destination\<rparr>,
             \<lparr>airline = lit ''AeroWings'', flight_number = lit ''AW318'',
              FlightOption.depart_time = q_date @ lit ''T10:15'',
              FlightOption.arrive_time = q_date @ lit ''T12:55'',
              FlightOption.duration = lit ''2h 40m'',
              FlightOption.price = base_price + 35,
              FlightOption.origin = upper q_origin,
              FlightOption.destination = upper q_destination\<rparr>,
             \<lparr>airline = lit ''CloudAir'', flight_number = lit ''CA722'',
              FlightOption.depart_time = q_date @ lit ''T19:45'',
              FlightOption.arrive_time = q_date @ lit ''T22:25'',
              FlightOption.duration = lit ''2h 40m'',
              FlightOption.price = base_price + 10,
              FlightOption.origin = upper q_origin,
              FlightOption.destination = upper q_destination\<rparr>];
          w' = try_pass (create_document (lit ''search'')
                 (Dict [(lit ''type'', PStr (lit ''flights'')), (lit ''origin'', PStr q_origin),
                        (lit ''destination'', PStr q_destination), (lit ''date'', PStr q_date)])) w
      in (Inr flights, w'))"

definition search_hotels ::
  "(pystr \<Rightarrow> payload \<Rightarrow> 'w \<Rightarrow> (exn + pystr) \<times> 'w) \<Rightarrow> pystr \<Rightarrow> pystr \<Rightarrow> pystr \<Rightarrow> 'w
     \<Rightarrow> (http_error + HotelOption list) \<times> 'w" where
  "search_hotels create_document q_city q_checkin q_checkout w =
     (let hotels =
            [\<lparr>name = lit ''Grand Central Hotel'', location = title q_city, rating = 4.5,
              price_per_night = 129,
              image = Some (lit ''https://images.unsplash.com/photo-1542314831-068cd1dbfeeb?q=80&w=1200&auto=format&fit=crop'')\<rparr>,
             \<lparr>name = lit ''Urban Stay Boutique'', location = title q_city, rating = 4.2,
              price_per_night = 99,
              image = Some (lit ''https://images.unsplash.com/photo-1496412705862-e0088f16f791?q=80&w=1200&auto=format&fit=crop'')\<rparr>,
             \<lparr>name = lit ''Skyline Suites'', location = title q_city, rating = 4.8,
              price_per_night = 189,
              image = Some (lit ''https://images.unsplash.com/photo-1502920917128-1aa500764cbd?q=80&w=1200&auto=format&fit=crop'')\<rparr>];
          w' = try_pass (create_document (lit ''search'')
                 (Dict [(lit ''type'', PStr (lit ''hotels'')), (lit ''city'', PStr q_city),
                        (lit ''checkin'', PStr q_checkin), (lit ''checkout'', PStr q_checkout)])) w
      in (Inr hotels, w'))"

definition search_trains ::
  "(pystr \<Rightarrow> payload \<Rightarrow> 'w \<Rightarrow> (exn + pystr) \<times> 'w) \<Rightarrow> pystr \<Rightarrow> pystr \<Rightarrow> pystr \<Rightarrow> 'w
     \<Rightarrow> (http_error + TrainOption list) \<times> 'w" where
  "search_trains create_document q_origin q_destination q_date w =
     (let trains =
            [\<lparr>train_name = lit ''Express Line'', train_number = lit ''EX123'',
              TrainOption.depart_time = q_date @ lit ''T07:10'',
              TrainOption.arrive_time = q_date @ lit ''T13:30'',
              TrainOption.duration = lit ''6h 20m'',
              TrainOption.price = 24,
              TrainOption.origin = upper q_origin,
              TrainOption.destination = upper q_destination\<rparr>,
             \<lparr>train_name = lit ''Rapid Rider'', train_number = lit ''RR452'',
              TrainOption.depart_time = q_date @ lit ''T15:00'',
              TrainOption.arrive_time = q_date @ lit ''T21:10'',
              TrainOption.duration = lit ''6h 10m'',
              TrainOption.price = 27.5,
              TrainOption.origin = upper q_origin,
              TrainOption.destination = upper q_destination\<rparr>];
          w' = try_pass (create_document (lit ''search'')
                 (Dict [(lit ''type'', PStr (lit ''trains'')), (lit ''origin'', PStr q_origin),
                        (lit ''destination'', PStr q_destination), (lit ''date'', PStr q_date)])) w
      in (Inr trains, w'))"

subsection \<open>POST /api/search\<close>

text \<open>
  The body arrives as a validated SearchQuery: \<open>type\<close> is any string, the other fields
  are optional strings. The handler hands the model to \<^verbatim>\<open>create_document\<close> as it is
  and returns the dict \<^verbatim>\<open>{"status": "ok", "id": doc_id}\<close>.
\<close>

definition create_search ::
  "(pystr \<Rightarrow> payload \<Rightarrow> 'w \<Rightarrow> (exn + pystr) \<times> 'w) \<Rightarrow> SearchQuery \<Rightarrow> 'w
     \<Rightarrow> (http_error + (pystr \<times> pystr) list) \<times> 'w" where
  "create_search create_document search w =
     (case create_document (lit ''search'') (Model search) w of
        (Inr doc_id, w') \<Rightarrow> (Inr [(lit ''status'', lit ''ok''), (lit ''id'', doc_id)], w')
      | (Inl e, w') \<Rightarrow> (Inl (HTTPException 500 (str e)), w'))"

subsection \<open>str(), isoformat() and comparison of stored values\<close>

definition digit_char :: "nat \<Rightarrow> nat" where
  "digit_char n = lit ''0123456789'' ! (n mod 10)"

fun decimal :: "nat \<Rightarrow> pystr" where
  "decimal n = (if n < 10 then [digit_char n] else decimal (n div 10) @ [digit_char n])"

declare decimal.simps [simp del]

text \<open>\<^verbatim>\<open>"%0<width>d" % n\<close>\<close>

definition zero_pad :: "nat \<Rightarrow> nat \<Rightarrow> pystr" where
  "zero_pad width n = replicate (width - length (decimal n)) (digit_char 0) @ decimal n"

text \<open>
  \<^verbatim>\<open>datetime.isoformat(sep)\<close> of a naive datetime: the microseconds are printed only
  when they are not zero.
\<close>

definition isoformat_sep :: "pystr \<Rightarrow> datetime \<Rightarrow> pystr" where
  "isoformat_sep sep t =
     zero_pad 4 (year t) @ lit ''-'' @ zero_pad 2 (month t) @ lit ''-'' @ zero_pad 2 (day t) @ sep
     @ zero_pad 2 (hour t) @ lit '':'' @ zero_pad 2 (minute t) @ lit '':'' @ zero_pad 2 (second t)
     @ (if microsecond t = 0 then [] else lit ''.'' @ zero_pad 6 (microsecond t))"

definition isoformat :: "datetime \<Rightarrow> pystr" where
  "isoformat t = isoformat_sep (lit ''T'') t"

text \<open>\<^verbatim>\<open>str(v)\<close>; an ObjectId is held as its 24 hexadecimal digits.\<close>

fun py_str :: "pyval \<Rightarrow> pystr" where
  "py_str (PStr s) = s"
| "py_str (PInt i) = (if i < 0 then lit ''-'' @ decimal (nat (- i)) else decimal (nat i))"
| "py_str PNone = lit ''None''"
| "py_str (PObjectId h) = h"
| "py_str (PDatetime t) = isoformat_sep (lit '' '') t"

fun type_name :: "pyval \<Rightarrow> pystr" where
  "type_name (PStr _) = lit ''str''"
| "type_name (PInt _) = lit ''int''"
| "type_name PNone = lit ''NoneType''"
| "type_name (PObjectId _) = lit ''ObjectId''"
| "type_name (PDatetime _) = lit ''datetime.datetime''"

definition not_supported :: "pystr \<Rightarrow> pyval \<Rightarrow> pyval \<Rightarrow> exn" where
  "not_supported opr a b =
     Exception ([0x27] @ opr @ [0x27] @ lit '' not supported between instances of ''
       @ [0x27] @ type_name a @ [0x27] @ lit '' and '' @ [0x27] @ type_name b @ [0x27])"

definition datetime_fields :: "datetime \<Rightarrow> nat list" where
  "datetime_fields t = [year t, month t, day t, hour t, minute t, second t, microsecond t]"

text \<open>
  \<^verbatim>\<open>a < b\<close> and \<^verbatim>\<open>a >= b\<close>: values of one type are compared, values of two
  types, and None with anything, raise TypeError.
\<close>

fun py_lt :: "pyval \<Rightarrow> pyval \<Rightarrow> exn + bool" where
  "py_lt (PStr a) (PStr b) = Inr (a < b)"
| "py_lt (PInt a) (PInt b) = Inr (a < b)"
| "py_lt (PObjectId a) (PObjectId b) = Inr (a < b)"
| "py_lt (PDatetime a) (PDatetime b) = Inr (datetime_fields a < datetime_fields b)"
| "py_lt a b = Inl (not_supported (lit ''<'') a b)"

fun py_ge :: "pyval \<Rightarrow> pyval \<Rightarrow> exn + bool" where
  "py_ge (PStr a) (PStr b) = Inr (a \<ge> b)"
| "py_ge (PInt a) (PInt b) = Inr (a \<ge> b)"
| "py_ge (PObjectId a) (PObjectId b) = Inr (a \<ge> b)"
| "py_ge (PDatetime a) (PDatetime b) = Inr (datetime_fields a \<ge> datetime_fields b)"
| "py_ge a b = Inl (not_supported (lit ''>='') a b)"

subsection \<open>GET /api/searches\<close>

text \<open>
  The body of the loop over the documents: \<^verbatim>\<open>_id\<close> becomes its \<^verbatim>\<open>str\<close>, and a
  \<^verbatim>\<open>created_at\<close> that has \<^verbatim>\<open>isoformat\<close> (a datetime) becomes its ISO text. A dict
  keeps the position of a key that is assigned again, as \<open>AList.update\<close> does.
\<close>

definition convert_doc :: "doc \<Rightarrow> doc" where
  "convert_doc d =
     (let d1 = (case map_of d (lit ''_id'') of
                  Some v \<Rightarrow> AList.update (lit ''_id'') (PStr (py_str v)) d
                | None \<Rightarrow> d)
      in case map_of d1 (lit ''created_at'') of
           Some (PDatetime t) \<Rightarrow> AList.update (lit ''created_at'') (PStr (isoformat t)) d1
         | _ \<Rightarrow> d1)"

text \<open>\<^verbatim>\<open>lambda x: x.get("created_at", "")\<close>\<close>

definition created_at_key :: "doc \<Rightarrow> pyval" where
  "created_at_key x = (case map_of x (lit ''created_at'') of Some v \<Rightarrow> v | None \<Rightarrow> PStr [])"

text \<open>
  \<^verbatim>\<open>docs.sort(key=..., reverse=True)\<close>: a stable sort into descending order of the
  keys, by \<^verbatim>\<open><\<close> alone, which raises what a comparison raises. It is written as an
  insertion sort from the right: a document goes behind the documents whose key is greater
  than its own and before the first whose key is not. On two or more documents it raises
  exactly when the keys are not all of one comparable type, as the library's sort does;
  which pair the message names may differ.
\<close>

fun insert_desc :: "doc \<Rightarrow> doc list \<Rightarrow> exn + doc list" where
  "insert_desc x [] = Inr [x]"
| "insert_desc x (y # ys) =
     (case py_lt (created_at_key x) (created_at_key y) of
        Inl e \<Rightarrow> Inl e
      | Inr True \<Rightarrow> (case insert_desc x ys of Inl e \<Rightarrow> Inl e | Inr r \<Rightarrow> Inr (y # r))
      | Inr False \<Rightarrow> Inr (x # y # ys))"

fun sort_created_at_desc :: "doc list \<Rightarrow> exn + doc list" where
  "sort_created_at_desc [] = Inr []"
| "sort_created_at_desc (x # xs) =
     (case sort_created_at_desc xs of Inl e \<Rightarrow> Inl e | Inr r \<Rightarrow> insert_desc x r)"

datatype searches_response = Items (items: "doc list")

definition list_recent_searches ::
  "(pystr \<Rightarrow> doc \<Rightarrow> int \<Rightarrow> 'w \<Rightarrow> (exn + doc list) \<times> 'w) \<Rightarrow> int \<Rightarrow> 'w
     \<Rightarrow> (http_error + searches_response) \<times> 'w" where
  "list_recent_searches get_documents limit w =
     (case get_documents (lit ''search'') [] limit w of
        (Inl e, w') \<Rightarrow> (Inl (HTTPException 500 (str e)), w')
      | (Inr docs, w') \<Rightarrow>
          (case sort_created_at_desc (map convert_doc docs) of
             Inl e \<Rightarrow> (Inl (HTTPException 500 (str e)), w')
           | Inr sorted_docs \<Rightarrow> (Inr (Items sorted_docs), w')))"

text \<open>
  \<^verbatim>\<open>limit: int = Query(10, ge=1, le=50)\<close>: an absent parameter is 10, a value outside
  1..50 is refused with status 422 before the handler runs.
\<close>

definition limit_Query :: "int option \<Rightarrow> http_error + int" where
  "limit_Query q =
     (case q of
        None \<Rightarrow> Inr 10
      | Some l \<Rightarrow> if 1 \<le> l \<and> l \<le> 50 then Inr l
                  else Inl (HTTPException 422 (lit ''Unprocessable Entity'')))"

definition get_api_searches ::
  "(pystr \<Rightarrow> doc \<Rightarrow> int \<Rightarrow> 'w \<Rightarrow> (exn + doc list) \<times> 'w) \<Rightarrow> int option \<Rightarrow> 'w
     \<Rightarrow> (http_error + searches_response) \<times> 'w" where
  "get_api_searches get_documents q w =
     (case limit_Query q of
        Inl err \<Rightarrow> (Inl err, w)
      | Inr limit \<Rightarrow> list_recent_searches get_documents limit w)"

text \<open>
  Modelled from the spec: \<^verbatim>\<open>get_documents\<close> of the database module, which is not among
  the sources. The connector holds a store (collection name to records) or is unavailable.
  The call fails with StorageUnavailable when there is no live handle; otherwise it returns
  the records of the named collection that match the filter (the empty filter matches all),
  at most \<open>limit\<close> of them, and leaves the store as it is.
\<close>

definition matches :: "doc \<Rightarrow> doc \<Rightarrow> bool" where
  "matches filter_dict d = list_all (\<lambda>(k, v). map_of d k = Some v) filter_dict"

definition get_documents ::
  "pystr \<Rightarrow> doc \<Rightarrow> int \<Rightarrow> (pystr \<Rightarrow> doc list) option
     \<Rightarrow> (exn + doc list) \<times> (pystr \<Rightarrow> doc list) option" where
  "get_documents collection_name filter_dict limit db =
     (case db of
        None \<Rightarrow> (Inl (Exception (lit ''StorageUnavailable'')), db)
      | Some store \<Rightarrow>
          (Inr (take (nat limit) (filter (matches filter_dict) (store collection_name))), db))"

subsection \<open>GET /test\<close>

definition check_mark :: pystr where
  "check_mark = [0x2705]"

definition cross_mark :: pystr where
  "cross_mark = [0x274C]"

definition warning_sign :: pystr where
  "warning_sign = [0x26A0, 0xFE0F]"

text \<open>
  The module-level \<^verbatim>\<open>db\<close>: None, or a handle with an optional \<^verbatim>\<open>name\<close> attribute
  and a \<^verbatim>\<open>list_collection_names()\<close> that returns the names or raises.
\<close>

record db_handle =
  name :: "pystr option"
  list_collection_names :: "exn + pystr list"

record test_response =
  backend :: pystr
  database :: pystr
  database_url :: "pystr option"
  database_name :: "pystr option"
  connection_status :: pystr
  collections :: "pystr list"

text \<open>Truth of \<^verbatim>\<open>os.getenv(k)\<close>: the variable is set and not empty.\<close>

definition getenv_true :: "(pystr \<Rightarrow> pystr option) \<Rightarrow> pystr \<Rightarrow> bool" where
  "getenv_true environ k = (case environ k of None \<Rightarrow> False | Some v \<Rightarrow> v \<noteq> [])"

text \<open>
  The outer \<^verbatim>\<open>try\<close> yields the outcome of its body and the response as mutated so far;
  the outer \<^verbatim>\<open>except\<close> then overwrites \<open>database\<close>. The two assignments from the
  environment follow outside the \<^verbatim>\<open>try\<close>.
\<close>

definition test_database ::
  "db_handle option \<Rightarrow> (pystr \<Rightarrow> pystr option) \<Rightarrow> exn + test_response" where
  "test_database db environ =
     (let response =
            \<lparr>backend = check_mark @ lit '' Running'',
             database = cross_mark @ lit '' Not Available'',
             database_url = None,
             database_name = None,
             connection_status = lit ''Not Connected'',
             collections = []\<rparr>;
          (outcome :: exn + unit, response) =
            (case db of
               Some h \<Rightarrow>
                 (let response = response
                        \<lparr>database := check_mark @ lit '' Available'',
                         database_url := Some (check_mark @ lit '' Configured''),
                         database_name := Some (case db_handle.name h of
                                                  Some n \<Rightarrow> n
                                                | None \<Rightarrow> check_mark @ lit '' Connected''),
                         connection_status := lit ''Connected''\<rparr>
                  in case list_collection_names h of
                       Inr cs \<Rightarrow>
                         (Inr (), response
                            \<lparr>collections := take 10 cs,
                             database := check_mark @ lit '' Connected & Working''\<rparr>)
                     | Inl e \<Rightarrow>
                         (Inr (), response
                            \<lparr>database := warning_sign @ lit '' Connected but Error: ''
                                           @ take 50 (str e)\<rparr>))
             | None \<Rightarrow>
                 (Inr (), response
                    \<lparr>database := warning_sign @ lit '' Available but not initialized''\<rparr>));
          response = (case outcome of
                        Inr _ \<Rightarrow> response
                      | Inl e \<Rightarrow> response\<lparr>database := cross_mark @ lit '' Error: '' @ take 50 (str e)\<rparr>);
          response = response
            \<lparr>database_url := Some (if getenv_true environ (lit ''DATABASE_URL'')
                                    then check_mark @ lit '' Set'' else cross_mark @ lit '' Not Set''),
             database_name := Some (if getenv_true environ (lit ''DATABASE_NAME'')
                                     then check_mark @ lit '' Set'' else cross_mark @ lit '' Not Set'')\<rparr>
      in Inr response)"

subsection \<open>Notions used by the properties\<close>

text \<open>Record \<open>A\<close> has a \<^verbatim>\<open>created_at\<close> key that is \<^verbatim>\<open>>=\<close> the one of record \<open>B\<close>.\<close>

definition key_ge :: "doc \<Rightarrow> doc \<Rightarrow> bool" where
  "key_ge A B = (py_ge (created_at_key A) (created_at_key B) = Inr True)"

text \<open>
  A stored record whose \<^verbatim>\<open>created_at\<close> is absent, a string or a datetime: what the
  endpoints of this program leave in the collection.
\<close>

definition text_key :: "doc \<Rightarrow> bool" where
  "text_key d =
     (case map_of d (lit ''created_at'') of
        None \<Rightarrow> True
      | Some (PStr _) \<Rightarrow> True
      | Some (PDatetime _) \<Rightarrow> True
      | Some _ \<Rightarrow> False)"

subsection \<open>Example worlds\<close>

text \<open>A create_document that appends the call to a log and returns an identifier.\<close>

definition logging_create_document ::
  "pystr \<Rightarrow> payload \<Rightarrow> (pystr \<times> payload) list \<Rightarrow> (exn + pystr) \<times> (pystr \<times> payload) list" where
  "logging_create_document collection_name data w =
     (Inr (lit ''665f1c2e9b1d4a0012345678''), w @ [(collection_name, data)])"

text \<open>A create_document and a get_documents that find no database.\<close>

definition failing_create_document ::
  "pystr \<Rightarrow> payload \<Rightarrow> unit \<Rightarrow> (exn + pystr) \<times> unit" where
  "failing_create_document collection_name data w =
     (Inl (Exception (lit ''Database not available'')), w)"

definition failing_get_documents ::
  "pystr \<Rightarrow> doc \<Rightarrow> int \<Rightarrow> unit \<Rightarrow> (exn + doc list) \<times> unit" where
  "failing_get_documents collection_name filter_dict limit w =
     (Inl (Exception (lit ''Database not available'')), w)"

definition boat_query :: SearchQuery where
  "boat_query =
     \<lparr>type = lit ''boats'', SearchQuery.origin = Some (lit ''oslo''),
      SearchQuery.destination = None, date = None, city = Some (lit ''kiel''), checkin = None,
      checkout = None\<rparr>"

definition hotel_doc :: doc where
  "hotel_doc =
     [(lit ''_id'', PObjectId (lit ''665f1c2e9b1d4a0000000001'')),
      (lit ''type'', PStr (lit ''hotels''))]"

definition flight_doc :: doc where
  "flight_doc =
     [(lit ''_id'', PObjectId (lit ''665f1c2e9b1d4a0000000002'')),
      (lit ''type'', PStr (lit ''flights'')),
      (lit ''created_at'', PDatetime \<lparr>year = 2024, month = 5, day = 1, hour = 10, minute = 0,
                                      second = 7, microsecond = 0\<rparr>)]"

definition train_doc :: doc where
  "train_doc = [(lit ''type'', PStr (lit ''trains''))]"

definition three_docs :: "pystr \<Rightarrow> doc \<Rightarrow> int \<Rightarrow> unit \<Rightarrow> (exn + doc list) \<times> unit" where
  "three_docs collection_name filter_dict limit w = (Inr [hotel_doc, flight_doc, train_doc], w)"

definition example_store :: "(pystr \<Rightarrow> doc list) option" where
  "example_store =
     Some (\<lambda>collection_name. if collection_name = lit ''search''
                               then [hotel_doc, flight_doc, train_doc] else [])"

definition working_db :: db_handle where
  "working_db =
     \<lparr>name = Some (lit ''travel''),
      list_collection_names =
        Inr (map lit [''c01'', ''c02'', ''c03'', ''c04'', ''c05'', ''c06'', ''c07'', ''c08'',
                      ''c09'', ''c10'', ''c11'', ''c12''])\<rparr>"

definition broken_db :: db_handle where
  "broken_db =
     \<lparr>name = Some (lit ''travel''), list_collection_names = Inl (Exception (lit ''timed out''))\<rparr>"

text \<open>A handle whose probe fails with a message of sixty times U+00E9.\<close>

definition garbled_db :: db_handle where
  "garbled_db =
     \<lparr>name = None, list_collection_names = Inl (Exception (replicate 60 0xE9))\<rparr>"

text \<open>Query strings beyond ASCII: z\<open>U+00FC\<close>rich, stra\<open>U+00DF\<close>e, s\<open>U+00E3\<close>o paulo.\<close>

definition zurich :: pystr where
  "zurich = lit ''z'' @ [0xFC] @ lit ''rich''"

definition strasse :: pystr where
  "strasse = lit ''stra'' @ [0xDF] @ lit ''e''"


section \<open>Properties\<close>

subsection \<open>Evaluating text\<close>

lemma lit_eq_iff: "lit a = lit b \<longleftrightarrow> a = b"
  by (simp add: lit_def inj_map_eq_map [OF inj_of_char])

lemmas upper_eval = upper_def to_upper_full_def case_map_def upper_special_def upper_runs_def
  lit_def


lemma upper_lax: "upper (lit ''lax'') = lit ''LAX''"
  by (simp add: upper_eval)

lemma upper_jfk: "upper (lit ''jfk'') = lit ''JFK''"
  by (simp add: upper_eval)

lemma upper_zurich: "upper zurich = lit ''Z'' @ [0xDC] @ lit ''RICH''"
  by (simp add: zurich_def upper_eval)

lemma upper_strasse: "upper strasse = lit ''STRASSE''"
  by (simp add: strasse_def upper_eval)



lemma lax_not_upper: "lit ''lax'' \<noteq> lit ''LAX''" and jfk_not_upper: "lit ''jfk'' \<noteq> lit ''JFK''"
  by (simp_all add: lit_eq_iff)

lemma zurich_not_upper: "zurich \<noteq> lit ''Z'' @ [0xDC] @ lit ''RICH''"
  and strasse_not_upper: "strasse \<noteq> lit ''STRASSE''"
  by (simp_all add: zurich_def strasse_def lit_def)

subsection \<open>The mock searches\<close>

text \<open>
  C1: for every origin, destination and date, and whatever create_document does,
  GET /api/search/flights returns exactly three flight entries; their prices are 99, 114
  and 89 in this order, and the origin and destination of each entry are the upper-cased
  query parameters.
\<close>

theorem search_flights_three_entries:
  "\<exists>f1 f2 f3. fst (search_flights create_document q_origin q_destination q_date w) = Inr [f1, f2, f3]
     \<and> FlightOption.price f1 = 99 \<and> FlightOption.price f2 = 114 \<and> FlightOption.price f3 = 89
     \<and> FlightOption.origin f1 = upper q_origin \<and> FlightOption.destination f1 = upper q_destination
     \<and> FlightOption.origin f2 = upper q_origin \<and> FlightOption.destination f2 = upper q_destination
     \<and> FlightOption.origin f3 = upper q_origin \<and> FlightOption.destination f3 = upper q_destination"
  by (simp add: search_flights_def Let_def)

theorem search_flights_three_entries_witness:
  "(\<exists>f1 f2 f3.
      fst (search_flights logging_create_document (lit ''lax'') (lit ''jfk'') (lit ''2024-05-01'') [])
        = Inr [f1, f2, f3]
      \<and> FlightOption.price f1 = 99 \<and> FlightOption.price f2 = 114 \<and> FlightOption.price f3 = 89
      \<and> FlightOption.origin f1 = lit ''LAX'' \<and> FlightOption.destination f1 = lit ''JFK''
      \<and> FlightOption.origin f2 = lit ''LAX'' \<and> FlightOption.destination f2 = lit ''JFK''
      \<and> FlightOption.origin f3 = lit ''LAX'' \<and> FlightOption.destination f3 = lit ''JFK'')
   \<and> (\<exists>f1 f2 f3.
      fst (search_flights failing_create_document zurich strasse (lit ''2024-05-01'') ())
        = Inr [f1, f2, f3]
      \<and> FlightOption.price f1 = 99 \<and> FlightOption.price f2 = 114 \<and> FlightOption.price f3 = 89
      \<and> FlightOption.origin f1 = lit ''Z'' @ [0xDC] @ lit ''RICH''
      \<and> FlightOption.destination f1 = lit ''STRASSE''
      \<and> FlightOption.origin f2 = lit ''Z'' @ [0xDC] @ lit ''RICH''
      \<and> FlightOption.destination f2 = lit ''STRASSE''
      \<and> FlightOption.origin f3 = lit ''Z'' @ [0xDC] @ lit ''RICH''
      \<and> FlightOption.destination f3 = lit ''STRASSE'')"
  using search_flights_three_entries
          [of logging_create_document "lit ''lax''" "lit ''jfk''" "lit ''2024-05-01''" "[]"]
    search_flights_three_entries
          [of failing_create_document zurich strasse "lit ''2024-05-01''" "()"]
  by (simp only: upper_lax upper_jfk upper_zurich upper_strasse)


lemma snd_try_pass: "try_pass call w = snd (call w)"
  by (simp add: try_pass_def split: prod.splits sum.splits)



text \<open>
  C3: whatever create_document does (return or raise, in any world), each of the three
  mock search endpoints answers with status 200 and its full list (three flights, three
  hotels, two trains), and the list is the one it returns under any other create_document
  in any other world: a persistence failure does not alter the response.
\<close>

theorem mock_searches_ignore_persistence:
  "(\<exists>fs. fst (search_flights create_document q_origin q_destination q_date w) = Inr fs
          \<and> length fs = 3
          \<and> fst (search_flights create_document' q_origin q_destination q_date w') = Inr fs)
   \<and> (\<exists>hs. fst (search_hotels create_document q_city q_checkin q_checkout w) = Inr hs
          \<and> length hs = 3
          \<and> fst (search_hotels create_document' q_city q_checkin q_checkout w') = Inr hs)
   \<and> (\<exists>ts. fst (search_trains create_document q_origin q_destination q_date w) = Inr ts
          \<and> length ts = 2
          \<and> fst (search_trains create_document' q_origin q_destination q_date w') = Inr ts)
   \<and> http_status (fst (search_flights create_document q_origin q_destination q_date w)) = 200
   \<and> http_status (fst (search_hotels create_document q_city q_checkin q_checkout w)) = 200
   \<and> http_status (fst (search_trains create_document q_origin q_destination q_date w)) = 200"
  by (simp add: search_flights_def search_hotels_def search_trains_def Let_def)

text \<open>
  C10: a mock flight or train search hands to create_document, for the collection
  "search", a payload whose origin, destination and date are the query parameters as
  received; the world it leaves is the one that call leaves. The returned entries carry
  the upper-cased origin and destination, so whenever a parameter is not already
  upper-case every returned entry differs from the stored value in that field.
\<close>

theorem searches_store_parameters_as_received:
  "snd (search_flights create_document q_origin q_destination q_date w)
     = snd (create_document (lit ''search'')
              (Dict [(lit ''type'', PStr (lit ''flights'')), (lit ''origin'', PStr q_origin),
                     (lit ''destination'', PStr q_destination), (lit ''date'', PStr q_date)]) w)
   \<and> snd (search_trains create_document q_origin q_destination q_date w)
     = snd (create_document (lit ''search'')
              (Dict [(lit ''type'', PStr (lit ''trains'')), (lit ''origin'', PStr q_origin),
                     (lit ''destination'', PStr q_destination), (lit ''date'', PStr q_date)]) w)
   \<and> (\<exists>fs ts. fst (search_flights create_document q_origin q_destination q_date w) = Inr fs
          \<and> fst (search_trains create_document q_origin q_destination q_date w) = Inr ts
          \<and> fs \<noteq> [] \<and> ts \<noteq> []
          \<and> list_all (\<lambda>f. FlightOption.origin f = upper q_origin
                           \<and> FlightOption.destination f = upper q_destination) fs
          \<and> list_all (\<lambda>t. TrainOption.origin t = upper q_origin
                           \<and> TrainOption.destination t = upper q_destination) ts
          \<and> (q_origin \<noteq> upper q_origin \<longrightarrow>
                list_all (\<lambda>f. FlightOption.origin f \<noteq> q_origin) fs
                \<and> list_all (\<lambda>t. TrainOption.origin t \<noteq> q_origin) ts)
          \<and> (q_destination \<noteq> upper q_destination \<longrightarrow>
                list_all (\<lambda>f. FlightOption.destination f \<noteq> q_destination) fs
                \<and> list_all (\<lambda>t. TrainOption.destination t \<noteq> q_destination) ts))"
  by (auto simp: search_flights_def search_trains_def Let_def snd_try_pass)

theorem searches_store_parameters_as_received_witness:
  "lit ''lax'' \<noteq> upper (lit ''lax'') \<and> lit ''jfk'' \<noteq> upper (lit ''jfk'')
   \<and> snd (search_flights logging_create_document (lit ''lax'') (lit ''jfk'') (lit ''2024-05-01'') [])
       = [(lit ''search'',
           Dict [(lit ''type'', PStr (lit ''flights'')), (lit ''origin'', PStr (lit ''lax'')),
                 (lit ''destination'', PStr (lit ''jfk'')),
                 (lit ''date'', PStr (lit ''2024-05-01''))])]
   \<and> snd (search_trains logging_create_document (lit ''lax'') (lit ''jfk'') (lit ''2024-05-01'') [])
       = [(lit ''search'',
           Dict [(lit ''type'', PStr (lit ''trains'')), (lit ''origin'', PStr (lit ''lax'')),
                 (lit ''destination'', PStr (lit ''jfk'')),
                 (lit ''date'', PStr (lit ''2024-05-01''))])]
   \<and> (\<exists>fs ts.
         fst (search_flights logging_create_document (lit ''lax'') (lit ''jfk'')
                (lit ''2024-05-01'') []) = Inr fs
          \<and> fst (search_trains logging_create_document (lit ''lax'') (lit ''jfk'')
                (lit ''2024-05-01'') []) = Inr ts
          \<and> fs \<noteq> [] \<and> ts \<noteq> []
          \<and> list_all (\<lambda>f. FlightOption.origin f = lit ''LAX''
                           \<and> FlightOption.destination f = lit ''JFK'') fs
          \<and> list_all (\<lambda>t. TrainOption.origin t = lit ''LAX''
                           \<and> TrainOption.destination t = lit ''JFK'') ts
          \<and> list_all (\<lambda>f. FlightOption.origin f \<noteq> lit ''lax'') fs
          \<and> list_all (\<lambda>t. TrainOption.origin t \<noteq> lit ''lax'') ts
          \<and> list_all (\<lambda>f. FlightOption.destination f \<noteq> lit ''jfk'') fs
          \<and> list_all (\<lambda>t. TrainOption.destination t \<noteq> lit ''jfk'') ts)
   \<and> zurich \<noteq> upper zurich \<and> strasse \<noteq> upper strasse
   \<and> (\<exists>fs ts.
         fst (search_flights logging_create_document zurich strasse (lit ''2024-05-01'') [])
           = Inr fs
          \<and> fst (search_trains logging_create_document zurich strasse (lit ''2024-05-01'') [])
           = Inr ts
          \<and> fs \<noteq> [] \<and> ts \<noteq> []
          \<and> list_all (\<lambda>f. FlightOption.origin f = lit ''Z'' @ [0xDC] @ lit ''RICH''
                           \<and> FlightOption.destination f = lit ''STRASSE'') fs
          \<and> list_all (\<lambda>t. TrainOption.origin t = lit ''Z'' @ [0xDC] @ lit ''RICH''
                           \<and> TrainOption.destination t = lit ''STRASSE'') ts
          \<and> list_all (\<lambda>f. FlightOption.origin f \<noteq> zurich) fs
          \<and> list_all (\<lambda>t. TrainOption.origin t \<noteq> zurich) ts
          \<and> list_all (\<lambda>f. FlightOption.destination f \<noteq> strasse) fs
          \<and> list_all (\<lambda>t. TrainOption.destination t \<noteq> strasse) ts)"
proof -
  have l: "lit ''lax'' \<noteq> upper (lit ''lax'')" and j: "lit ''jfk'' \<noteq> upper (lit ''jfk'')"
    by (simp_all only: upper_lax upper_jfk lax_not_upper jfk_not_upper not_False_eq_True)
  have z: "zurich \<noteq> upper zurich" and s: "strasse \<noteq> upper strasse"
    by (simp_all only: upper_zurich upper_strasse zurich_not_upper strasse_not_upper
        not_False_eq_True)
  note a = searches_store_parameters_as_received
             [of logging_create_document "lit ''lax''" "lit ''jfk''" "lit ''2024-05-01''" "[]"]
  note b = searches_store_parameters_as_received
             [of logging_create_document zurich strasse "lit ''2024-05-01''" "[]"]
  from a l j have a': "snd (search_flights logging_create_document (lit ''lax'') (lit ''jfk'')
                              (lit ''2024-05-01'') [])
       = [(lit ''search'',
           Dict [(lit ''type'', PStr (lit ''flights'')), (lit ''origin'', PStr (lit ''lax'')),
                 (lit ''destination'', PStr (lit ''jfk'')),
                 (lit ''date'', PStr (lit ''2024-05-01''))])]
   \<and> snd (search_trains logging_create_document (lit ''lax'') (lit ''jfk'') (lit ''2024-05-01'') [])
       = [(lit ''search'',
           Dict [(lit ''type'', PStr (lit ''trains'')), (lit ''origin'', PStr (lit ''lax'')),
                 (lit ''destination'', PStr (lit ''jfk'')),
                 (lit ''date'', PStr (lit ''2024-05-01''))])]
   \<and> (\<exists>fs ts.
         fst (search_flights logging_create_document (lit ''lax'') (lit ''jfk'')
                (lit ''2024-05-01'') []) = Inr fs
          \<and> fst (search_trains logging_create_document (lit ''lax'') (lit ''jfk'')
                (lit ''2024-05-01'') []) = Inr ts
          \<and> fs \<noteq> [] \<and> ts \<noteq> []
          \<and> list_all (\<lambda>f. FlightOption.origin f = lit ''LAX''
                           \<and> FlightOption.destination f = lit ''JFK'') fs
          \<and> list_all (\<lambda>t. TrainOption.origin t = lit ''LAX''
                           \<and> TrainOption.destination t = lit ''JFK'') ts
          \<and> list_all (\<lambda>f. FlightOption.origin f \<noteq> lit ''lax'') fs
          \<and> list_all (\<lambda>t. TrainOption.origin t \<noteq> lit ''lax'') ts
          \<and> list_all (\<lambda>f. FlightOption.destination f \<noteq> lit ''jfk'') fs
          \<and> list_all (\<lambda>t. TrainOption.destination t \<noteq> lit ''jfk'') ts)"
    by (simp add: upper_lax upper_jfk logging_create_document_def)
  from b z s have b': "\<exists>fs ts.
         fst (search_flights logging_create_document zurich strasse (lit ''2024-05-01'') [])
           = Inr fs
          \<and> fst (search_trains logging_create_document zurich strasse (lit ''2024-05-01'') [])
           = Inr ts
          \<and> fs \<noteq> [] \<and> ts \<noteq> []
          \<and> list_all (\<lambda>f. FlightOption.origin f = lit ''Z'' @ [0xDC] @ lit ''RICH''
                           \<and> FlightOption.destination f = lit ''STRASSE'') fs
          \<and> list_all (\<lambda>t. TrainOption.origin t = lit ''Z'' @ [0xDC] @ lit ''RICH''
                           \<and> TrainOption.destination t = lit ''STRASSE'') ts
          \<and> list_all (\<lambda>f. FlightOption.origin f \<noteq> zurich) fs
          \<and> list_all (\<lambda>t. TrainOption.origin t \<noteq> zurich) ts
          \<and> list_all (\<lambda>f. FlightOption.destination f \<noteq> strasse) fs
          \<and> list_all (\<lambda>t. TrainOption.destination t \<noteq> strasse) ts"
    by (simp add: upper_zurich upper_strasse)
  from l j a' z s b' show ?thesis by blast
qed

subsection \<open>Logging a search and listing the recent ones\<close>

text \<open>
  C4: POST /api/search returns {status: "ok", id} with the identifier create_document
  returned when that call succeeds, and raises HTTP 500 whose detail is the text of the
  exception when that call raises; it fails in exactly that case. GET /api/searches
  raises HTTP 500 with the text of the exception when get_documents raises.
\<close>

theorem create_search_outcome:
  "(\<forall>doc_id. fst (create_document (lit ''search'') (Model search) w) = Inr doc_id \<longrightarrow>
       fst (create_search create_document search w)
         = Inr [(lit ''status'', lit ''ok''), (lit ''id'', doc_id)])
   \<and> (\<forall>e. fst (create_document (lit ''search'') (Model search) w) = Inl e \<longrightarrow>
         fst (create_search create_document search w) = Inl (HTTPException 500 (str e))
         \<and> http_status (fst (create_search create_document search w)) = 500)
   \<and> ((\<exists>err. fst (create_search create_document search w) = Inl err)
        = (\<exists>e. fst (create_document (lit ''search'') (Model search) w) = Inl e))
   \<and> (\<forall>e. fst (get_docs (lit ''search'') [] limit w') = Inl e \<longrightarrow>
         fst (list_recent_searches get_docs limit w') = Inl (HTTPException 500 (str e))
         \<and> http_status (fst (list_recent_searches get_docs limit w')) = 500)"
  by (auto simp: create_search_def list_recent_searches_def split: prod.splits sum.splits)

theorem create_search_outcome_witness:
  "fst (logging_create_document (lit ''search'') (Model boat_query) [])
       = Inr (lit ''665f1c2e9b1d4a0012345678'')
   \<and> fst (create_search logging_create_document boat_query [])
       = Inr [(lit ''status'', lit ''ok''), (lit ''id'', lit ''665f1c2e9b1d4a0012345678'')]
   \<and> fst (failing_create_document (lit ''search'') (Model boat_query) ())
       = Inl (Exception (lit ''Database not available''))
   \<and> fst (create_search failing_create_document boat_query ())
       = Inl (HTTPException 500 (lit ''Database not available''))
   \<and> fst (failing_get_documents (lit ''search'') [] 10 ())
       = Inl (Exception (lit ''Database not available''))
   \<and> fst (list_recent_searches failing_get_documents 10 ())
       = Inl (HTTPException 500 (lit ''Database not available''))"
  using create_search_outcome [of logging_create_document boat_query "[]" failing_get_documents 10 "()"]
    create_search_outcome [of failing_create_document boat_query "()" failing_get_documents 10 "()"]
  by (simp add: logging_create_document_def failing_create_document_def failing_get_documents_def)

text \<open>
  C9: POST /api/search does not look at the type field. For every SearchQuery, whatever
  string its type is and whichever optional fields are set, the handler calls
  create_document on the collection "search" with the model as it came, leaves the world
  that call leaves, and fails if and only if that call raises.
\<close>

theorem create_search_no_type_validation:
  "snd (create_search create_document search w)
     = snd (create_document (lit ''search'') (Model search) w)
   \<and> isl (fst (create_search create_document search w))
     = isl (fst (create_document (lit ''search'') (Model search) w))"
  by (simp add: create_search_def split: prod.splits sum.splits)

theorem create_search_no_type_validation_witness:
  "SearchQuery.type boat_query \<notin> {lit ''flights'', lit ''hotels'', lit ''trains''}
   \<and> snd (create_search logging_create_document boat_query []) = [(lit ''search'', Model boat_query)]
   \<and> \<not> isl (fst (create_search logging_create_document boat_query []))"
  using create_search_no_type_validation [of logging_create_document boat_query "[]"]
  by (simp add: logging_create_document_def boat_query_def lit_eq_iff)

subsubsection \<open>The order of the listing\<close>

lemma py_lt_False_ge: "py_lt a b = Inr False \<Longrightarrow> py_ge a b = Inr True"
  by (cases a; cases b) auto

lemma py_lt_True_ge: "py_lt a b = Inr True \<Longrightarrow> py_ge b a = Inr True"
  by (cases a; cases b) auto

lemma py_ge_trans: "py_ge a b = Inr True \<Longrightarrow> py_ge b c = Inr True \<Longrightarrow> py_ge a c = Inr True"
  by (cases a; cases b; cases c) auto

lemma py_ge_empty: "py_ge (PStr []) b = Inr True \<Longrightarrow> b = PStr []"
  by (cases b) auto

lemma insert_desc_sorted:
  "insert_desc x ys = Inr r \<Longrightarrow> sorted_wrt key_ge ys
     \<Longrightarrow> sorted_wrt key_ge r \<and> set r = insert x (set ys) \<and> length r = Suc (length ys)"
proof (induction ys arbitrary: r)
  case Nil
  then show ?case by auto
next
  case (Cons y ys)
  show ?case
  proof (cases "py_lt (created_at_key x) (created_at_key y)")
    case (Inl e)
    with Cons.prems show ?thesis by simp
  next
    case (Inr b)
    show ?thesis
    proof (cases b)
      case True
      with Inr Cons.prems obtain r' where r': "insert_desc x ys = Inr r'" and r: "r = y # r'"
        by (auto split: sum.splits)
      from Cons.prems have "sorted_wrt key_ge ys" by simp
      from Cons.IH [OF r' this] have ih: "sorted_wrt key_ge r'" "set r' = insert x (set ys)"
        "length r' = Suc (length ys)" by auto
      from True Inr have "key_ge y x" by (simp add: key_ge_def py_lt_True_ge)
      with ih Cons.prems r show ?thesis by auto
    next
      case False
      with Inr Cons.prems have r: "r = x # y # ys" by simp
      from False Inr have xy: "key_ge x y" by (simp add: key_ge_def py_lt_False_ge)
      have "\<forall>z\<in>set ys. key_ge x z"
      proof
        fix z assume "z \<in> set ys"
        with Cons.prems have "key_ge y z" by simp
        with xy show "key_ge x z" unfolding key_ge_def by (rule py_ge_trans)
      qed
      with xy r Cons.prems show ?thesis by auto
    qed
  qed
qed

lemma sort_created_at_desc_sorted:
  "sort_created_at_desc xs = Inr r
     \<Longrightarrow> sorted_wrt key_ge r \<and> set r = set xs \<and> length r = length xs"
proof (induction xs arbitrary: r)
  case Nil
  then show ?case by simp
next
  case (Cons x xs)
  from Cons.prems obtain r' where r': "sort_created_at_desc xs = Inr r'"
    and r: "insert_desc x r' = Inr r"
    by (auto split: sum.splits)
  from Cons.IH [OF r'] have ih: "sorted_wrt key_ge r'" "set r' = set xs" "length r' = length xs"
    by auto
  from insert_desc_sorted [OF r ih(1)] ih show ?case by auto
qed

lemma list_recent_searches_Inr:
  "fst (list_recent_searches get_docs limit w) = Inr r
     \<Longrightarrow> \<exists>docs. fst (get_docs (lit ''search'') [] limit w) = Inr docs
           \<and> sort_created_at_desc (map convert_doc docs) = Inr (items r)"
  by (auto simp: list_recent_searches_def split: prod.splits sum.splits)

text \<open>The listing is returned whenever every stored created_at is absent, text or a datetime.\<close>

lemma created_at_key_convert_doc:
  "text_key d \<Longrightarrow> \<exists>s. created_at_key (convert_doc d) = PStr s"
  by (auto simp: text_key_def convert_doc_def created_at_key_def Let_def update_conv' lit_eq_iff
           split: option.splits pyval.splits)

lemma insert_desc_text:
  "\<exists>s. created_at_key x = PStr s \<Longrightarrow> \<forall>y\<in>set ys. \<exists>s. created_at_key y = PStr s
     \<Longrightarrow> \<exists>r. insert_desc x ys = Inr r \<and> set r = insert x (set ys)"
proof (induction ys)
  case Nil
  then show ?case by simp
next
  case (Cons y ys)
  from Cons.prems obtain a b where a: "created_at_key x = PStr a" and b: "created_at_key y = PStr b"
    by auto
  from Cons obtain r where r: "insert_desc x ys = Inr r" "set r = insert x (set ys)" by auto
  show ?case
  proof (cases "a < b")
    case True
    with a b r show ?thesis by auto
  next
    case False
    with a b show ?thesis by auto
  qed
qed

lemma sort_created_at_desc_text:
  "\<forall>x\<in>set xs. \<exists>s. created_at_key x = PStr s
     \<Longrightarrow> \<exists>r. sort_created_at_desc xs = Inr r \<and> set r = set xs"
proof (induction xs)
  case Nil
  then show ?case by simp
next
  case (Cons x xs)
  then obtain r where r: "sort_created_at_desc xs = Inr r" "set r = set xs" by auto
  with Cons.prems have "\<forall>y\<in>set r. \<exists>s. created_at_key y = PStr s" by simp
  moreover from Cons.prems have "\<exists>s. created_at_key x = PStr s" by simp
  ultimately obtain r' where "insert_desc x r = Inr r'" "set r' = insert x (set r)"
    using insert_desc_text by blast
  with r show ?case by auto
qed

lemma list_recent_searches_returns:
  assumes "fst (get_docs (lit ''search'') [] limit w) = Inr docs"
    and "\<forall>d\<in>set docs. text_key d"
  shows "\<exists>r. fst (list_recent_searches get_docs limit w) = Inr r"
proof -
  from assms(2) have "\<forall>x\<in>set (map convert_doc docs). \<exists>s. created_at_key x = PStr s"
    by (auto dest: created_at_key_convert_doc)
  from sort_created_at_desc_text [OF this] obtain r where
    "sort_created_at_desc (map convert_doc docs) = Inr r" by blast
  with assms(1) show ?thesis
    by (auto simp: list_recent_searches_def split: prod.splits)
qed

lemma three_docs_listing:
  "fst (list_recent_searches three_docs 10 ()) =
     Inr (Items
       [[(lit ''_id'', PStr (lit ''665f1c2e9b1d4a0000000002'')),
         (lit ''type'', PStr (lit ''flights'')),
         (lit ''created_at'', PStr (lit ''2024-05-01T10:00:07''))],
        [(lit ''_id'', PStr (lit ''665f1c2e9b1d4a0000000001'')),
         (lit ''type'', PStr (lit ''hotels''))],
        [(lit ''type'', PStr (lit ''trains''))]])"
  by (simp add: list_recent_searches_def three_docs_def hotel_doc_def flight_doc_def
      train_doc_def convert_doc_def created_at_key_def isoformat_def isoformat_sep_def
      zero_pad_def decimal.simps digit_char_def Let_def lit_def)

text \<open>
  C2: in the list GET /api/searches returns, a record that stands before another has a
  created_at that is \<^verbatim>\<open>>=\<close> the other's, a record without created_at counting as the
  empty string; so every record behind one without created_at has the empty key too.
\<close>

theorem list_recent_searches_descending:
  assumes "fst (list_recent_searches get_docs limit w) = Inr r"
    and "i < j" and "j < length (items r)"
  shows "py_ge (created_at_key (items r ! i)) (created_at_key (items r ! j)) = Inr True
         \<and> (map_of (items r ! i) (lit ''created_at'') = None
              \<longrightarrow> created_at_key (items r ! j) = PStr [])"
proof -
  from list_recent_searches_Inr [OF assms(1)] obtain docs where
    s: "sort_created_at_desc (map convert_doc docs) = Inr (items r)" by blast
  from sort_created_at_desc_sorted [OF s] have "sorted_wrt key_ge (items r)" by simp
  with assms(2,3) have ge: "key_ge (items r ! i) (items r ! j)"
    by (simp add: sorted_wrt_iff_nth_less)
  have "created_at_key (items r ! j) = PStr []"
    if "map_of (items r ! i) (lit ''created_at'') = None"
  proof -
    from that have "created_at_key (items r ! i) = PStr []" by (simp add: created_at_key_def)
    with ge show ?thesis by (simp add: key_ge_def py_ge_empty)
  qed
  with ge show ?thesis by (simp add: key_ge_def)
qed

theorem list_recent_searches_descending_witness:
  "(\<exists>r. fst (list_recent_searches three_docs 10 ()) = Inr r
      \<and> length (items r) = 3
      \<and> created_at_key (items r ! 0) = PStr (lit ''2024-05-01T10:00:07'')
      \<and> map_of (items r ! 1) (lit ''created_at'') = None
      \<and> py_ge (created_at_key (items r ! 0)) (created_at_key (items r ! 1)) = Inr True
      \<and> py_ge (created_at_key (items r ! 1)) (created_at_key (items r ! 2)) = Inr True
      \<and> created_at_key (items r ! 2) = PStr [])"
proof -
  let ?r = "Items
       [[(lit ''_id'', PStr (lit ''665f1c2e9b1d4a0000000002'')),
         (lit ''type'', PStr (lit ''flights'')),
         (lit ''created_at'', PStr (lit ''2024-05-01T10:00:07''))],
        [(lit ''_id'', PStr (lit ''665f1c2e9b1d4a0000000001'')),
         (lit ''type'', PStr (lit ''hotels''))],
        [(lit ''type'', PStr (lit ''trains''))]]"
  have r: "fst (list_recent_searches three_docs 10 ()) = Inr ?r" by (rule three_docs_listing)
  have l: "length (items ?r) = 3" by simp
  have m: "map_of (items ?r ! 1) (lit ''created_at'') = None" by (simp add: lit_eq_iff)
  have k: "created_at_key (items ?r ! 0) = PStr (lit ''2024-05-01T10:00:07'')"
    by (simp add: created_at_key_def lit_eq_iff)
  have ab: "py_ge (created_at_key (items ?r ! 0)) (created_at_key (items ?r ! 1)) = Inr True
         \<and> (map_of (items ?r ! 0) (lit ''created_at'') = None
              \<longrightarrow> created_at_key (items ?r ! 1) = PStr [])"
    by (rule list_recent_searches_descending [OF r]) simp_all
  then have a: "py_ge (created_at_key (items ?r ! 0)) (created_at_key (items ?r ! 1)) = Inr True"
    by (rule conjunct1)
  have bc: "py_ge (created_at_key (items ?r ! 1)) (created_at_key (items ?r ! 2)) = Inr True
         \<and> (map_of (items ?r ! 1) (lit ''created_at'') = None
              \<longrightarrow> created_at_key (items ?r ! 2) = PStr [])"
    by (rule list_recent_searches_descending [OF r]) simp_all
  then have b: "py_ge (created_at_key (items ?r ! 1)) (created_at_key (items ?r ! 2)) = Inr True"
    by (rule conjunct1)
  from bc m have c: "created_at_key (items ?r ! 2) = PStr []"
    by blast
  from r l m k a b c show ?thesis by blast
qed

subsubsection \<open>The length of the listing\<close>

lemma example_store_get_documents:
  "fst (get_documents (lit ''search'') [] 2 example_store) = Inr [hotel_doc, flight_doc]"
  by (simp add: get_documents_def example_store_def matches_def)

lemma example_store_listing:
  "fst (list_recent_searches get_documents 2 example_store) =
     Inr (Items
       [[(lit ''_id'', PStr (lit ''665f1c2e9b1d4a0000000002'')),
         (lit ''type'', PStr (lit ''flights'')),
         (lit ''created_at'', PStr (lit ''2024-05-01T10:00:07''))],
        [(lit ''_id'', PStr (lit ''665f1c2e9b1d4a0000000001'')),
         (lit ''type'', PStr (lit ''hotels''))]])"
  by (simp add: list_recent_searches_def get_documents_def example_store_def matches_def
      hotel_doc_def flight_doc_def convert_doc_def created_at_key_def isoformat_def
      isoformat_sep_def zero_pad_def decimal.simps digit_char_def Let_def lit_def)

lemma limit_Query_range: "limit_Query q = Inr l \<Longrightarrow> 1 \<le> l \<and> l \<le> 50"
  by (auto simp: limit_Query_def split: option.splits if_splits)

lemma list_recent_searches_length:
  assumes "fst (list_recent_searches get_docs limit w) = Inr r"
  shows "\<exists>docs. fst (get_docs (lit ''search'') [] limit w) = Inr docs
           \<and> length (items r) = length docs"
proof -
  from list_recent_searches_Inr [OF assms] obtain docs where
    d: "fst (get_docs (lit ''search'') [] limit w) = Inr docs"
    and s: "sort_created_at_desc (map convert_doc docs) = Inr (items r)" by blast
  from sort_created_at_desc_sorted [OF s] have "length (items r) = length docs" by simp
  with d show ?thesis by blast
qed

lemma get_documents_length:
  "0 \<le> limit \<Longrightarrow> fst (get_documents collection_name filter_dict limit db) = Inr docs
     \<Longrightarrow> int (length docs) \<le> limit"
  by (auto simp: get_documents_def split: option.splits)

text \<open>
  C7: for every limit from 1 to 50, get_documents returns at most limit records, and so
  does GET /api/searches on top of it; the endpoint's limit parameter, 10 when absent and
  refused outside 1..50, bounds every list the endpoint returns.
\<close>

theorem get_documents_at_most_limit:
  assumes "1 \<le> limit" and "limit \<le> 50"
  shows "(\<forall>docs. fst (get_documents collection_name filter_dict limit db) = Inr docs
            \<longrightarrow> int (length docs) \<le> limit)
         \<and> (\<forall>r. fst (list_recent_searches get_documents limit db) = Inr r
               \<longrightarrow> int (length (items r)) \<le> limit)
         \<and> (\<forall>r. fst (get_api_searches get_documents (Some limit) db) = Inr r
               \<longrightarrow> int (length (items r)) \<le> limit)
         \<and> (\<forall>r. fst (get_api_searches get_documents None db) = Inr r
               \<longrightarrow> length (items r) \<le> 10)"
proof (intro conjI allI impI)
  fix docs
  assume "fst (get_documents collection_name filter_dict limit db) = Inr docs"
  with assms(1) show "int (length docs) \<le> limit"
    by (simp add: get_documents_length)
next
  fix r
  assume "fst (list_recent_searches get_documents limit db) = Inr r"
  from list_recent_searches_length [OF this] obtain docs where
    "fst (get_documents (lit ''search'') [] limit db) = Inr docs" "length (items r) = length docs"
    by blast
  with assms(1) show "int (length (items r)) \<le> limit"
    by (simp add: get_documents_length)
next
  fix r
  assume "fst (get_api_searches get_documents (Some limit) db) = Inr r"
  with assms have "fst (list_recent_searches get_documents limit db) = Inr r"
    by (simp add: get_api_searches_def limit_Query_def)
  from list_recent_searches_length [OF this] obtain docs where
    "fst (get_documents (lit ''search'') [] limit db) = Inr docs" "length (items r) = length docs"
    by blast
  with assms(1) show "int (length (items r)) \<le> limit"
    by (simp add: get_documents_length)
next
  fix r
  assume "fst (get_api_searches get_documents None db) = Inr r"
  then have "fst (list_recent_searches get_documents 10 db) = Inr r"
    by (simp add: get_api_searches_def limit_Query_def)
  from list_recent_searches_length [OF this] obtain docs where
    d: "fst (get_documents (lit ''search'') [] 10 db) = Inr docs" "length (items r) = length docs"
    by blast
  have "int (length docs) \<le> 10"
    by (rule get_documents_length [OF _ d(1)]) simp
  with d(2) show "length (items r) \<le> 10" by simp
qed

theorem get_documents_at_most_limit_witness:
  "(1::int) \<le> 2 \<and> (2::int) \<le> 50
   \<and> fst (get_documents (lit ''search'') [] 2 example_store) = Inr [hotel_doc, flight_doc]
   \<and> int (length [hotel_doc, flight_doc]) \<le> 2
   \<and> (\<exists>r. fst (list_recent_searches get_documents 2 example_store) = Inr r
          \<and> int (length (items r)) \<le> 2)
   \<and> (\<exists>r. fst (get_api_searches get_documents (Some 2) example_store) = Inr r
          \<and> int (length (items r)) \<le> 2)
   \<and> (\<exists>r. fst (get_api_searches get_documents None example_store) = Inr r
          \<and> length (items r) \<le> 10)"
proof -
  have h1: "(1::int) \<le> 2" and h2: "(2::int) \<le> 50" by simp_all
  note th = get_documents_at_most_limit [OF h1 h2, of "lit ''search''" "[]" example_store]
  have g: "fst (get_documents (lit ''search'') [] 2 example_store) = Inr [hotel_doc, flight_doc]"
    by (rule example_store_get_documents)
  from th g have a: "int (length [hotel_doc, flight_doc]) \<le> 2" by blast
  obtain r where r: "fst (list_recent_searches get_documents 2 example_store) = Inr r"
    using example_store_listing by blast
  with th have b: "int (length (items r)) \<le> 2" by blast
  from r have r': "fst (get_api_searches get_documents (Some 2) example_store) = Inr r"
    by (simp add: get_api_searches_def limit_Query_def)
  with th have c: "int (length (items r)) \<le> 2" by blast
  have tk: "\<forall>d\<in>set [hotel_doc, flight_doc, train_doc]. text_key d"
    by (simp add: text_key_def hotel_doc_def flight_doc_def train_doc_def lit_eq_iff)
  have g10: "fst (get_documents (lit ''search'') [] 10 example_store)
               = Inr [hotel_doc, flight_doc, train_doc]"
    by (simp add: get_documents_def example_store_def matches_def)
  from list_recent_searches_returns
         [where get_docs = get_documents and limit = 10 and w = example_store, OF g10 tk]
  obtain r10 where
    "fst (list_recent_searches get_documents 10 example_store) = Inr r10"
    by blast
  then have r10: "fst (get_api_searches get_documents None example_store) = Inr r10"
    by (simp add: get_api_searches_def limit_Query_def)
  with th have d: "length (items r10) \<le> 10" by blast
  from h1 h2 g a r b r' c r10 d show ?thesis by blast
qed

subsection \<open>The diagnostic endpoint\<close>

text \<open>
  C5: for every state of the database handle (absent, present, present with a collection
  probe that raises) and every environment, GET /test returns a response and does not
  raise. Without a handle the database field says so; with a working handle it reports
  the connection and lists the first ten collection names at most; with a failing probe
  it carries the first fifty characters of the error and lists no collection.
\<close>

theorem test_database_never_raises:
  "\<exists>response. test_database db environ = Inr response
     \<and> length (collections response) \<le> 10
     \<and> (db = None \<longrightarrow>
           database response = warning_sign @ lit '' Available but not initialized''
           \<and> collections response = [])
     \<and> (\<forall>h cs. db = Some h \<and> list_collection_names h = Inr cs \<longrightarrow>
           database response = check_mark @ lit '' Connected & Working''
           \<and> collections response = take 10 cs)
     \<and> (\<forall>h e. db = Some h \<and> list_collection_names h = Inl e \<longrightarrow>
           database response = warning_sign @ lit '' Connected but Error: '' @ take 50 (str e)
           \<and> collections response = [])"
  by (cases db; cases "list_collection_names (the db)") (simp_all add: test_database_def Let_def)

theorem test_database_never_raises_witness:
  "(\<exists>response. test_database None Map.empty = Inr response
      \<and> database response = warning_sign @ lit '' Available but not initialized''
      \<and> collections response = [])
   \<and> list_collection_names working_db
       = Inr (map lit [''c01'', ''c02'', ''c03'', ''c04'', ''c05'', ''c06'', ''c07'', ''c08'',
                       ''c09'', ''c10'', ''c11'', ''c12''])
   \<and> (\<exists>response. test_database (Some working_db) Map.empty = Inr response
      \<and> database response = check_mark @ lit '' Connected & Working''
      \<and> collections response
            = map lit [''c01'', ''c02'', ''c03'', ''c04'', ''c05'', ''c06'', ''c07'', ''c08'',
                       ''c09'', ''c10''])
   \<and> list_collection_names broken_db = Inl (Exception (lit ''timed out''))
   \<and> (\<exists>response. test_database (Some broken_db) Map.empty = Inr response
      \<and> database response = warning_sign @ lit '' Connected but Error: timed out''
      \<and> collections response = [])
   \<and> list_collection_names garbled_db = Inl (Exception (replicate 60 0xE9))
   \<and> (\<exists>response. test_database (Some garbled_db) Map.empty = Inr response
      \<and> database response = warning_sign @ lit '' Connected but Error: '' @ replicate 50 0xE9
      \<and> collections response = [])"
proof -
  have w: "list_collection_names working_db
             = Inr (map lit [''c01'', ''c02'', ''c03'', ''c04'', ''c05'', ''c06'', ''c07'', ''c08'',
                             ''c09'', ''c10'', ''c11'', ''c12''])"
    by (simp add: working_db_def)
  have b: "list_collection_names broken_db = Inl (Exception (lit ''timed out''))"
    by (simp add: broken_db_def)
  have g: "list_collection_names garbled_db = Inl (Exception (replicate 60 0xE9))"
    by (simp add: garbled_db_def)
  from test_database_never_raises [of None Map.empty]
  have 1: "\<exists>response. test_database None Map.empty = Inr response
      \<and> database response = warning_sign @ lit '' Available but not initialized''
      \<and> collections response = []"
    by auto
  from test_database_never_raises [of "Some working_db" Map.empty] w
  have 2: "\<exists>response. test_database (Some working_db) Map.empty = Inr response
      \<and> database response = check_mark @ lit '' Connected & Working''
      \<and> collections response
            = map lit [''c01'', ''c02'', ''c03'', ''c04'', ''c05'', ''c06'', ''c07'', ''c08'',
                       ''c09'', ''c10'']"
    by auto
  from test_database_never_raises [of "Some broken_db" Map.empty] b
  have 3: "\<exists>response. test_database (Some broken_db) Map.empty = Inr response
      \<and> database response = warning_sign @ lit '' Connected but Error: timed out''
      \<and> collections response = []"
    by (auto simp: lit_def)
  from test_database_never_raises [of "Some garbled_db" Map.empty] g
  have 4: "\<exists>response. test_database (Some garbled_db) Map.empty = Inr response
      \<and> database response = warning_sign @ lit '' Connected but Error: '' @ replicate 50 0xE9
      \<and> collections response = []"
    by auto
  from 1 w 2 b 3 g 4 show ?thesis by blast
qed

text \<open>
  C8: for one environment and any two states of the database handle, GET /test reports
  the same database_url and the same database_name: each says whether os.getenv of its
  variable is true (the variable is set and not empty), whatever the connection did.
\<close>

theorem test_database_url_name_from_environment:
  "\<exists>r1 r2. test_database db1 environ = Inr r1 \<and> test_database db2 environ = Inr r2
     \<and> database_url r1 = database_url r2
     \<and> database_name r1 = database_name r2
     \<and> database_url r1 = Some (if getenv_true environ (lit ''DATABASE_URL'')
                                then check_mark @ lit '' Set'' else cross_mark @ lit '' Not Set'')
     \<and> database_name r1 = Some (if getenv_true environ (lit ''DATABASE_NAME'')
                                 then check_mark @ lit '' Set'' else cross_mark @ lit '' Not Set'')"
  by (simp add: test_database_def Let_def split: option.splits sum.splits)

end
